theory Spec2Isabelle
  imports Main "HOL-Library.AList"
begin

section \<open>Instants and their ISO-8601 rendering\<close>

text \<open>
  \<^verbatim>\<open>timezone.utcnow()\<close> returns a timezone-aware \<^verbatim>\<open>datetime\<close> in UTC. A Python
  \<^verbatim>\<open>datetime\<close> stores its fields separately, with microsecond resolution.
\<close>

record datetime =
  year :: nat
  month :: nat
  day :: nat
  hour :: nat
  minute :: nat
  second :: nat
  microsecond :: nat

text \<open>The field ranges the \<^verbatim>\<open>datetime\<close> constructor enforces (MINYEAR = 1, MAXYEAR = 9999).\<close>

definition valid_datetime :: "datetime \<Rightarrow> bool" where
  "valid_datetime d \<longleftrightarrow>
     1 \<le> year d \<and> year d \<le> 9999 \<and> 1 \<le> month d \<and> month d \<le> 12 \<and>
     1 \<le> day d \<and> day d \<le> 31 \<and> hour d < 24 \<and> minute d < 60 \<and> second d < 60 \<and>
     microsecond d < 1000000"

definition digit_char :: "nat \<Rightarrow> char" where
  "digit_char n = char_of (48 + n)"

text \<open>\<^verbatim>\<open>"%0kd" % n\<close> for \<open>n < 10 ^ k\<close>: the \<open>k\<close> decimal digits of \<open>n\<close>, zero padded.\<close>

fun zero_padded :: "nat \<Rightarrow> nat \<Rightarrow> string" where
  "zero_padded 0 n = []"
| "zero_padded (Suc k) n = zero_padded k (n div 10) @ [digit_char (n mod 10)]"

text \<open>
  \<^verbatim>\<open>datetime.isoformat()\<close> of an aware UTC instant:
  \<^verbatim>\<open>YYYY-MM-DDTHH:MM:SS.ffffff+00:00\<close>, the fraction left out when the microsecond
  field is zero.
\<close>

definition isoformat :: "datetime \<Rightarrow> string" where
  "isoformat d =
     zero_padded 4 (year d) @ ''-'' @ zero_padded 2 (month d) @ ''-'' @ zero_padded 2 (day d) @
     ''T'' @ zero_padded 2 (hour d) @ '':'' @ zero_padded 2 (minute d) @ '':'' @
     zero_padded 2 (second d) @
     (if microsecond d = 0 then [] else ''.'' @ zero_padded 6 (microsecond d)) @
     ''+00:00''"

text \<open>
  The position of an instant on the time line, in microseconds since the start of
  0001-01-01, by the proleptic Gregorian ordinal of the date (\<^verbatim>\<open>date.toordinal\<close>).
\<close>

definition is_leap :: "nat \<Rightarrow> bool" where
  "is_leap y \<longleftrightarrow> y mod 4 = 0 \<and> (y mod 100 \<noteq> 0 \<or> y mod 400 = 0)"

definition days_before_year :: "nat \<Rightarrow> nat" where
  "days_before_year y = (y - 1) * 365 + (y - 1) div 4 - (y - 1) div 100 + (y - 1) div 400"

definition days_before_month :: "nat \<Rightarrow> nat \<Rightarrow> nat" where
  "days_before_month y m =
     [0, 0, 31, 59, 90, 120, 151, 181, 212, 243, 273, 304, 334] ! (min m 12) +
     (if m > 2 \<and> is_leap y then 1 else 0)"

definition toordinal :: "datetime \<Rightarrow> nat" where
  "toordinal d = days_before_year (year d) + days_before_month (year d) (month d) + day d"

definition timestamp_us :: "datetime \<Rightarrow> int" where
  "timestamp_us d =
     int (((toordinal d * 24 + hour d) * 60 + minute d) * 60 + second d) * 1000000
       + int (microsecond d)"

section \<open>Temporary run identifiers\<close>

text \<open>
  \<^verbatim>\<open>return f"__airflow_temporary_run_{timezone.utcnow().isoformat()}__"\<close>;
  the reading of the clock is the argument.
\<close>

definition generate_temporary_run_id :: "datetime \<Rightarrow> string" where
  "generate_temporary_run_id now = ''__airflow_temporary_run_'' @ isoformat now @ ''__''"

section \<open>Data model\<close>

text \<open>
  The enumerations, with the members the task commands name and the ones the
  run lifecycle distinguishes.
\<close>

datatype DagRunType = MANUAL | SCHEDULED

datatype DagRunTriggeredByType = CLI | OTHER_CHANNEL

datatype DagRunState = QUEUED | RUNNING | SUCCESS | FAILED

datatype TaskInstanceState = TI_RUNNING | TI_SUCCESS | TI_FAILED

text \<open>\<^verbatim>\<open>CreateIfNecessary = Literal[False, "db", "memory"]\<close>\<close>

datatype CreateIfNecessary = No_create | Db | Memory

text \<open>
  The exceptions the commands raise or let through. A message is kept as the
  text it is formatted from and the values it interpolates:
  \<^item> \<open>Must_provide\<close>: \<^verbatim>\<open>Must provide `logical_date_or_run_id` if not `create_if_necessary`.\<close>
  \<^item> \<open>Task_without_dag\<close>: \<^verbatim>\<open>Cannot get task instance for a task not assigned to a DAG\<close>
  \<^item> \<open>Task_not_in_dag task_id dag_id\<close>: \<^verbatim>\<open>Provided task {task.task_id} is not in dag '{dag.dag_id}.\<close>
  \<^item> \<open>Unknown_create_if_necessary\<close>: \<^verbatim>\<open>unknown create_if_necessary value: {create_if_necessary!r}\<close>
  \<^item> \<open>Dag_not_serialized dag_id\<close>:
    \<^verbatim>\<open>Cannot create TaskInstance for {dag.dag_id} because the Dag is not serialized.\<close>
  \<^item> \<open>Invalid_run_id run_id\<close>:
    \<^verbatim>\<open>The run_id provided '{run_id}' does not match regex pattern ...\<close>
  \<^item> \<open>Operator_without_dag\<close>: \<^verbatim>\<open>Operator {self} has not been assigned to a DAG yet\<close>
  \<^item> \<open>No_map_index\<close>: \<^verbatim>\<open>No map_index passed to mapped task\<close>
  \<^item> \<open>Unexpected_map_index\<close>: \<^verbatim>\<open>map_index passed to non-mapped task\<close>
\<close>

datatype value_error =
    Must_provide
  | Task_without_dag
  | Task_not_in_dag string string
  | Unknown_create_if_necessary
  | Dag_not_serialized string
  | Invalid_run_id string

datatype runtime_error = No_map_index | Unexpected_map_index | Operator_without_dag

datatype exn =
    ValueError value_error
  | RuntimeError runtime_error
  | DagRunNotFound string string
  | TaskInstanceNotFound string string int "string option"
  | AirflowException
  | TaskNotFound string
  | JSONDecodeError
  | ParamValidationError
  | ImportError string
  | TaskFailure string

type_synonym dict = "(string \<times> string) list"

text \<open>\<^verbatim>\<open>d.update(u)\<close> on dictionaries kept as association lists.\<close>

definition dict_update :: "dict \<Rightarrow> dict \<Rightarrow> dict" where
  "dict_update d u = fold (\<lambda>(k, v). AList.update k v) u d"

record DataInterval =
  di_start :: datetime
  di_end :: datetime

record DagRun =
  dr_dag_id :: string
  dr_run_id :: "string option"
  dr_run_type :: DagRunType
  dr_logical_date :: "datetime option"
  dr_data_interval :: "DataInterval option"
  dr_run_after :: datetime
  dr_triggered_by :: DagRunTriggeredByType
  dr_triggering_user_name :: "string option"
  dr_state :: DagRunState
  dr_start_date :: "datetime option"

text \<open>
  A task definition (\<^verbatim>\<open>Operator = BaseOperator | MappedOperator\<close>):
  \<open>needs_expansion\<close> is what \<^verbatim>\<open>task.get_needs_expansion()\<close> answers,
  \<open>is_MappedOperator\<close> what \<^verbatim>\<open>isinstance(task, MappedOperator)\<close> does and
  \<open>params_is_ParamsDict\<close> what \<^verbatim>\<open>isinstance(task.params, ParamsDict)\<close> does.
\<close>

record Task =
  task_id :: string
  needs_expansion :: bool
  is_MappedOperator :: bool
  pool :: string
  params :: dict
  params_is_ParamsDict :: bool

record DAG =
  dag_id :: string
  task_dict :: "(string \<times> Task) list"
  infer_manual_data_interval :: "datetime \<Rightarrow> DataInterval"

text \<open>An operator as the commands receive it: the definition and the workflow it is attached to.\<close>

record Operator =
  op_task :: Task
  op_dag :: "DAG option"

record TaskInstance =
  ti_dag_id :: string
  ti_task_id :: string
  ti_run_id :: "string option"
  ti_map_index :: int
  ti_dag_version_id :: nat
  ti_pool :: string
  ti_state :: "TaskInstanceState option"
  ti_task :: "Task option"
  ti_dag_run :: "DagRun option"

text \<open>
  The database as the session shows it: the run records, the task-instance records
  and the latest published version of each workflow.
\<close>

record store =
  dag_runs :: "DagRun list"
  task_instances :: "TaskInstance list"
  dag_versions :: "(string \<times> nat) list"

text \<open>
  What a call reads from outside the program: the readings of the clock
  (\<^verbatim>\<open>timezone.utcnow()\<close> for \<^verbatim>\<open>run_after\<close>, inside the identifier generator, and
  in the constructor of a run that starts running), the configured pattern of run
  identifiers,
  \<^verbatim>\<open>getuser()\<close> (\<open>None\<close> when it raises \<^verbatim>\<open>AirflowConfigException\<close>),
  \<^verbatim>\<open>timezone.parse\<close> (\<open>None\<close> when the string is no date), the serialisation round
  trip of a workflow, the state the database gives a run it creates, the bundle lookup
  \<^verbatim>\<open>get_dag\<close>, \<^verbatim>\<open>json.loads\<close>, parameter validation, the modules that can be
  imported, and the body of the task, \<^verbatim>\<open>_run_task\<close>, which may change the store in
  any way and either raises or leaves the instance in a state.
\<close>

record ambient =
  utcnow_run_after :: datetime
  utcnow_run_id :: datetime
  utcnow_start_date :: datetime
  run_id_allowed :: "string \<Rightarrow> bool"
  getuser :: "string option"
  parse :: "string \<Rightarrow> datetime option"
  serialize_roundtrip :: "DAG \<Rightarrow> DAG"
  created_run_state :: DagRunState
  get_dag :: "string \<Rightarrow> string \<Rightarrow> DAG option"
  json_loads :: "string \<Rightarrow> dict option"
  params_valid :: "dict \<Rightarrow> bool"
  importable :: "string \<Rightarrow> bool"
  run_task :: "TaskInstance \<Rightarrow> store \<Rightarrow> (exn + TaskInstanceState option) \<times> store"

section \<open>The run store\<close>

text \<open>Python truthiness of an optional string: \<^verbatim>\<open>None\<close> and \<^verbatim>\<open>""\<close> are false.\<close>

fun truthy :: "string option \<Rightarrow> bool" where
  "truthy None = False"
| "truthy (Some v) = (v \<noteq> [])"

text \<open>
  Modelled from the spec: the identifier resolver
  \<^verbatim>\<open>fetch_dag_run_from_run_id_or_logical_date_string\<close> of \<^verbatim>\<open>airflow.cli.utils\<close>.
  It tries the string as a run identifier of the workflow; failing that, as a parseable
  instant, looked up among the logical instants of the workflow's runs. The parsed
  instant is returned also without a match; no match and no parse is the empty result.
\<close>

definition fetch_dag_run_from_run_id_or_logical_date_string ::
  "ambient \<Rightarrow> string \<Rightarrow> string \<Rightarrow> store \<Rightarrow> DagRun option \<times> datetime option" where
  "fetch_dag_run_from_run_id_or_logical_date_string amb did value session =
     (case find (\<lambda>r. dr_dag_id r = did \<and> dr_run_id r = Some value) (dag_runs session) of
        Some r \<Rightarrow> (Some r, None)
      | None \<Rightarrow>
          (case parse amb value of
             None \<Rightarrow> (None, None)
           | Some d \<Rightarrow>
               (find (\<lambda>r. dr_dag_id r = did \<and> dr_logical_date r = Some d) (dag_runs session),
                Some d)))"

text \<open>
  Modelled from the spec: \<^verbatim>\<open>_get_or_create_dagrun\<close> of \<^verbatim>\<open>airflow.models.dag\<close>, the
  store's atomic get-or-create of a run by workflow and run identifier, from the
  logical instant, the interval, \<^verbatim>\<open>run_after\<close> and the trigger metadata.
\<close>

definition get_or_create_dagrun ::
  "ambient \<Rightarrow> DAG \<Rightarrow> string \<Rightarrow> datetime option \<Rightarrow> DataInterval option \<Rightarrow> datetime \<Rightarrow>
   DagRunTriggeredByType \<Rightarrow> string option \<Rightarrow> datetime \<Rightarrow> store \<Rightarrow> DagRun \<times> store" where
  "get_or_create_dagrun amb dag rid logical_date data_interval run_after triggered_by
     triggering_user_name start_date session =
     (case find (\<lambda>r. dr_dag_id r = dag_id dag \<and> dr_run_id r = Some rid) (dag_runs session) of
        Some r \<Rightarrow> (r, session)
      | None \<Rightarrow>
          (let r = \<lparr>dr_dag_id = dag_id dag, dr_run_id = Some rid, dr_run_type = MANUAL,
                     dr_logical_date = logical_date, dr_data_interval = data_interval,
                     dr_run_after = run_after, dr_triggered_by = triggered_by,
                     dr_triggering_user_name = triggering_user_name,
                     dr_state = created_run_state amb, dr_start_date = Some start_date\<rparr>
           in (r, session\<lparr>dag_runs := dag_runs session @ [r]\<rparr>)))"

text \<open>
  Modelled from the spec: \<^verbatim>\<open>session.delete(run)\<close>, the store's \<^verbatim>\<open>delete_run\<close>. A
  run is the row of its workflow and run identifier.
\<close>

definition same_run :: "DagRun \<Rightarrow> DagRun \<Rightarrow> bool" where
  "same_run r r' \<longleftrightarrow> dr_dag_id r = dr_dag_id r' \<and> dr_run_id r = dr_run_id r'"

definition session_delete :: "store \<Rightarrow> DagRun \<Rightarrow> store" where
  "session_delete session r = session\<lparr>dag_runs := filter (\<lambda>r'. \<not> same_run r' r) (dag_runs session)\<rparr>"

text \<open>\<^verbatim>\<open>dag_run in session\<close>: the run is one the session tracks.\<close>

definition in_session :: "DagRun \<Rightarrow> store \<Rightarrow> bool" where
  "in_session r session \<longleftrightarrow> r \<in> set (dag_runs session)"

text \<open>
  Modelled from the spec: \<^verbatim>\<open>DagRun.get_task_instance\<close>, the lookup of the instance
  of (run, task, map index). A run without identifier has no stored instance. The
  instance comes back with its run relationship resolved to the run it was asked from.
\<close>

definition ti_key :: "DagRun \<Rightarrow> string \<Rightarrow> int \<Rightarrow> TaskInstance \<Rightarrow> bool" where
  "ti_key r tid mi t \<longleftrightarrow>
     ti_dag_id t = dr_dag_id r \<and> ti_run_id t = dr_run_id r \<and> ti_task_id t = tid \<and> ti_map_index t = mi"

definition get_task_instance :: "DagRun \<Rightarrow> string \<Rightarrow> int \<Rightarrow> store \<Rightarrow> TaskInstance option" where
  "get_task_instance r tid mi session =
     (case dr_run_id r of
        None \<Rightarrow> None
      | Some _ \<Rightarrow> map_option (\<lambda>t. t\<lparr>ti_dag_run := Some r\<rparr>)
                    (find (ti_key r tid mi) (task_instances session)))"

text \<open>Modelled from the spec: \<^verbatim>\<open>DagVersion.get_latest_version\<close>, the latest published version.\<close>

definition get_latest_version :: "string \<Rightarrow> store \<Rightarrow> nat option" where
  "get_latest_version did session = map_of (dag_versions session) did"

text \<open>\<^verbatim>\<open>session.add(ti)\<close>\<close>

definition session_add :: "store \<Rightarrow> TaskInstance \<Rightarrow> store" where
  "session_add session t = session\<lparr>task_instances := task_instances session @ [t]\<rparr>"

text \<open>
  An instance the session tracks is the stored record itself: what the command
  assigns to it afterwards is what the store holds once the session is committed.
\<close>

definition same_ti :: "TaskInstance \<Rightarrow> TaskInstance \<Rightarrow> bool" where
  "same_ti t t' \<longleftrightarrow>
     ti_dag_id t = ti_dag_id t' \<and> ti_run_id t = ti_run_id t' \<and> ti_task_id t = ti_task_id t' \<and>
     ti_map_index t = ti_map_index t'"

definition session_flush :: "store \<Rightarrow> TaskInstance \<Rightarrow> store" where
  "session_flush session t =
     session\<lparr>task_instances := map (\<lambda>t'. if same_ti t' t then t else t') (task_instances session)\<rparr>"

text \<open>
  The constructor \<^verbatim>\<open>TaskInstance(task, run_id=, map_index=, dag_version_id=)\<close> and
  \<^verbatim>\<open>ti.refresh_from_task(task, pool_override=)\<close>, which binds the task definition and
  sets \<^verbatim>\<open>pool_override or task.pool\<close>.
\<close>

definition new_TaskInstance :: "Task \<Rightarrow> string \<Rightarrow> string option \<Rightarrow> int \<Rightarrow> nat \<Rightarrow> TaskInstance" where
  "new_TaskInstance task did rid mi dv =
     \<lparr>ti_dag_id = did, ti_task_id = task_id task, ti_run_id = rid, ti_map_index = mi,
      ti_dag_version_id = dv, ti_pool = pool task, ti_state = None, ti_task = Some task,
      ti_dag_run = None\<rparr>"

definition refresh_from_task :: "TaskInstance \<Rightarrow> Task \<Rightarrow> string option \<Rightarrow> TaskInstance" where
  "refresh_from_task t task pool_override =
     t\<lparr>ti_task := Some task,
       ti_pool := (case pool_override of
                     None \<Rightarrow> pool task
                   | Some p \<Rightarrow> if p \<noteq> [] then p else pool task)\<rparr>"

text \<open>
  The constructor \<^verbatim>\<open>DagRun(dag_id=, run_id=, ..., state=)\<close>. The class belongs to
  \<^verbatim>\<open>airflow.models.dagrun\<close>; the constructor is modelled by what it does with these
  arguments:
  the run identifier is validated on assignment (an empty one becomes \<^verbatim>\<open>None\<close>, one
  outside the configured pattern raises \<^verbatim>\<open>ValueError\<close>), and a run that is built in
  state \<^verbatim>\<open>RUNNING\<close> gets the current instant as start date.
\<close>

definition validate_run_id :: "ambient \<Rightarrow> string option \<Rightarrow> exn + string option" where
  "validate_run_id amb rid =
     (case rid of
        None \<Rightarrow> Inr None
      | Some v \<Rightarrow>
          if v = [] then Inr None
          else if run_id_allowed amb v then Inr (Some v)
          else Inl (ValueError (Invalid_run_id v)))"

definition new_DagRun ::
  "ambient \<Rightarrow> string \<Rightarrow> string option \<Rightarrow> DagRunType \<Rightarrow> datetime option \<Rightarrow> DataInterval option \<Rightarrow>
   datetime \<Rightarrow> DagRunTriggeredByType \<Rightarrow> string option \<Rightarrow> DagRunState \<Rightarrow> exn + DagRun" where
  "new_DagRun amb did rid rtype logical_date data_interval run_after triggered_by
     triggering_user_name st =
     (case validate_run_id amb rid of
        Inl e \<Rightarrow> Inl e
      | Inr rid' \<Rightarrow>
          Inr \<lparr>dr_dag_id = did, dr_run_id = rid', dr_run_type = rtype,
               dr_logical_date = logical_date, dr_data_interval = data_interval,
               dr_run_after = run_after, dr_triggered_by = triggered_by,
               dr_triggering_user_name = triggering_user_name, dr_state = st,
               dr_start_date = (if st = RUNNING then Some (utcnow_start_date amb) else None)\<rparr>)"

text \<open>
  The attribute \<^verbatim>\<open>task.dag\<close>, by the operator classes of the task SDK: on a \<^verbatim>\<open>BaseOperator\<close> that is attached to no workflow the property raises
  \<^verbatim>\<open>RuntimeError\<close>, on a \<^verbatim>\<open>MappedOperator\<close> the attribute is then \<^verbatim>\<open>None\<close>.
\<close>

definition task_dag :: "Operator \<Rightarrow> exn + DAG option" where
  "task_dag task =
     (case op_dag task of
        Some d \<Rightarrow> Inr (Some d)
      | None \<Rightarrow>
          if is_MappedOperator (op_task task) then Inr None
          else Inl (RuntimeError Operator_without_dag))"

section \<open>Resolving a run: \<^verbatim>\<open>_get_dag_run\<close>\<close>

text \<open>
  The session is the store, passed in and returned. The steps are those of the source:
  the precondition, the lookup of a supplied identifier, \<^verbatim>\<open>DagRunNotFound\<close> when
  creation is off, then the logical date, data interval, \<^verbatim>\<open>run_after\<close> and user, and
  the run built in memory or asked from the store under a generated identifier.
\<close>

definition get_dag_run ::
  "ambient \<Rightarrow> DAG \<Rightarrow> CreateIfNecessary \<Rightarrow> string option \<Rightarrow> store \<Rightarrow> (exn + DagRun \<times> bool) \<times> store" where
  "get_dag_run amb dag create_if_necessary logical_date_or_run_id session =
     (if \<not> truthy logical_date_or_run_id \<and> create_if_necessary = No_create
      then (Inl (ValueError Must_provide), session)
      else
        let (dag_run, logical_date) =
              (case logical_date_or_run_id of
                 None \<Rightarrow> (None, None)
               | Some v \<Rightarrow>
                   if v \<noteq> []
                   then fetch_dag_run_from_run_id_or_logical_date_string amb (dag_id dag) v session
                   else (None, None))
        in case dag_run of
             Some r \<Rightarrow> (Inr (r, False), session)
           | None \<Rightarrow>
               if truthy logical_date_or_run_id \<and> create_if_necessary = No_create
               then (Inl (DagRunNotFound (dag_id dag) (case logical_date_or_run_id of Some v \<Rightarrow> v | None \<Rightarrow> [])), session)
               else
                 let dag_run_logical_date = logical_date;
                     data_interval = map_option (infer_manual_data_interval dag) dag_run_logical_date;
                     run_after = (case data_interval of
                                    Some i \<Rightarrow> di_end i
                                  | None \<Rightarrow> utcnow_run_after amb);
                     user = getuser amb
                 in (case create_if_necessary of
                      Memory \<Rightarrow>
                        (case new_DagRun amb (dag_id dag) logical_date_or_run_id MANUAL
                                dag_run_logical_date data_interval run_after CLI user RUNNING of
                           Inl e \<Rightarrow> (Inl e, session)
                         | Inr r \<Rightarrow> (Inr (r, True), session))
                    | Db \<Rightarrow>
                        (let scheduler_dag = serialize_roundtrip amb dag;
                             (r, session') =
                               get_or_create_dagrun amb scheduler_dag
                                 (generate_temporary_run_id (utcnow_run_id amb))
                                 dag_run_logical_date data_interval run_after CLI user
                                 (case logical_date of Some d \<Rightarrow> d | None \<Rightarrow> run_after)
                                 session
                         in (Inr (r, True), session'))
                    | No_create \<Rightarrow> (Inl (ValueError Unknown_create_if_necessary), session)))"

section \<open>Binding a task instance: \<^verbatim>\<open>_get_ti\<close>\<close>

definition get_ti ::
  "ambient \<Rightarrow> Operator \<Rightarrow> int \<Rightarrow> string option \<Rightarrow> string option \<Rightarrow> CreateIfNecessary \<Rightarrow> store \<Rightarrow>
   (exn + TaskInstance \<times> bool) \<times> store" where
  "get_ti amb task map_index logical_date_or_run_id pool_override create_if_necessary session =
     (case task_dag task of
        Inl e \<Rightarrow> (Inl e, session)
      | Inr None \<Rightarrow> (Inl (ValueError Task_without_dag), session)
      | Inr (Some dag) \<Rightarrow>
          if task_id (op_task task) \<notin> set (map fst (task_dict dag))
          then (Inl (ValueError (Task_not_in_dag (task_id (op_task task)) (dag_id dag))), session)
          else if \<not> truthy logical_date_or_run_id \<and> create_if_necessary = No_create
          then (Inl (ValueError Must_provide), session)
          else if needs_expansion (op_task task) \<and> map_index < 0
          then (Inl (RuntimeError No_map_index), session)
          else if \<not> needs_expansion (op_task task) \<and> map_index \<ge> 0
          then (Inl (RuntimeError Unexpected_map_index), session)
          else
            (case get_dag_run amb dag create_if_necessary logical_date_or_run_id session of
               (Inl e, session1) \<Rightarrow> (Inl e, session1)
             | (Inr (dag_run, dr_created), session1) \<Rightarrow>
                 (case get_task_instance dag_run (task_id (op_task task)) map_index session1 of
                    None \<Rightarrow>
                      if create_if_necessary = No_create
                      then (Inl (TaskInstanceNotFound (dag_id dag) (task_id (op_task task)) map_index
                                   logical_date_or_run_id), session1)
                      else
                        (case get_latest_version (dag_id dag) session1 of
                           None \<Rightarrow> (Inl (ValueError (Dag_not_serialized (dag_id dag))), session1)
                         | Some dag_version \<Rightarrow>
                             let ti = new_TaskInstance (op_task task) (dag_id dag) (dr_run_id dag_run)
                                        map_index dag_version;
                                 session2 = (if in_session dag_run session1
                                             then session_add session1 ti else session1);
                                 ti = ti\<lparr>ti_dag_run := Some dag_run\<rparr>;
                                 ti = refresh_from_task ti (op_task task) pool_override;
                                 ti = refresh_from_task ti (op_task task) pool_override
                             in (Inr (ti, dr_created), session_flush session2 ti))
                  | Some ti \<Rightarrow>
                      let ti = refresh_from_task ti (op_task task) pool_override;
                          ti = refresh_from_task ti (op_task task) pool_override
                      in (Inr (ti, dr_created), session_flush session1 ti))))"

section \<open>Testing a task: \<^verbatim>\<open>task_test\<close>\<close>

definition SUPPORTED_DEBUGGER_MODULES :: "string list" where
  "SUPPORTED_DEBUGGER_MODULES = [''pudb'', ''web_pdb'', ''pdbr'', ''ipdb'', ''pdb'']"

text \<open>
  \<^verbatim>\<open>_guess_debugger\<close>: the first module that imports, else the last
  \<^verbatim>\<open>ImportError\<close> is raised again.
\<close>

fun guess_debugger_from :: "ambient \<Rightarrow> string list \<Rightarrow> exn option \<Rightarrow> exn option + string" where
  "guess_debugger_from amb [] exc = Inl exc"
| "guess_debugger_from amb (mod_name # rest) exc =
     (if importable amb mod_name then Inr mod_name
      else guess_debugger_from amb rest (Some (ImportError mod_name)))"

definition guess_debugger :: "ambient \<Rightarrow> exn + string" where
  "guess_debugger amb =
     (case guess_debugger_from amb SUPPORTED_DEBUGGER_MODULES None of
        Inr m \<Rightarrow> Inr m
      | Inl (Some e) \<Rightarrow> Inl e
      | Inl None \<Rightarrow> Inl (ImportError []))"

text \<open>The state of the process the command changes, and its arguments.\<close>

record process =
  MASK_SECRETS_IN_LOGS :: bool
  task_handlers_are_stream :: "bool list"
  task_logger_propagate :: bool
  environ :: dict

record cli_args =
  arg_bundle_name :: string
  arg_dag_id :: string
  arg_task_id :: string
  arg_map_index :: int
  arg_logical_date_or_run_id :: "string option"
  arg_env_vars :: "dict option"
  arg_task_params :: "string option"
  arg_post_mortem :: bool

text \<open>
  The loop over the handlers of the \<^verbatim>\<open>airflow.task\<close> logger, which stops at the first
  stream handler.
\<close>

fun has_stream_handler :: "bool list \<Rightarrow> bool \<Rightarrow> bool" where
  "has_stream_handler [] already = already"
| "has_stream_handler (h # hs) already = (if h then True else has_stream_handler hs h)"

text \<open>\<^verbatim>\<open>dag.get_task(task_id=)\<close>: the task of the workflow, attached to it.\<close>

definition get_task :: "DAG \<Rightarrow> string \<Rightarrow> exn + Operator" where
  "get_task dag tid =
     (case map_of (task_dict dag) tid of
        None \<Rightarrow> Inl (TaskNotFound tid)
      | Some t \<Rightarrow> Inr \<lparr>op_task = t, op_dag = Some dag\<rparr>)"

text \<open>
  The \<^verbatim>\<open>try\<close> block of \<^verbatim>\<open>task_test\<close>: the task body under redirected output, then
  the debugger when the instance failed and \<^verbatim>\<open>--post-mortem\<close> was given.
\<close>

definition task_test_body :: "ambient \<Rightarrow> cli_args \<Rightarrow> TaskInstance \<Rightarrow> store \<Rightarrow> (exn + unit) \<times> store" where
  "task_test_body amb args ti session =
     (case run_task amb ti session of
        (Inl e, session') \<Rightarrow> (Inl e, session')
      | (Inr st, session') \<Rightarrow>
          if st = Some TI_FAILED \<and> arg_post_mortem args
          then (case guess_debugger amb of
                  Inl e \<Rightarrow> (Inl e, session')
                | Inr debugger \<Rightarrow> (Inr (), session'))
          else (Inr (), session'))"

text \<open>
  The \<^verbatim>\<open>finally\<close> block: the propagation flag goes back to \<^verbatim>\<open>False\<close> when the
  command had set it, and a run that was created is deleted in a session of its own.
\<close>

definition task_test_finally ::
  "bool \<Rightarrow> TaskInstance \<Rightarrow> bool \<Rightarrow> process \<times> store \<Rightarrow> process \<times> store" where
  "task_test_finally already_has_stream_handler ti dr_created st =
     (let (proc, session) = st;
          proc = (if \<not> already_has_stream_handler
                  then proc\<lparr>task_logger_propagate := False\<rparr> else proc);
          session = (if dr_created
                     then (case ti_dag_run ti of
                             Some r \<Rightarrow> session_delete session r
                           | None \<Rightarrow> session)
                     else session)
      in (proc, session))"

text \<open>
  The start of \<^verbatim>\<open>task_test\<close>: secrets are masked, log propagation is switched on
  unless a stream handler is there, and the environment is updated.
\<close>

definition task_test_setup :: "cli_args \<Rightarrow> process \<Rightarrow> bool \<times> process" where
  "task_test_setup args proc =
     (let proc = proc\<lparr>MASK_SECRETS_IN_LOGS := True\<rparr>;
          already_has_stream_handler = has_stream_handler (task_handlers_are_stream proc) False;
          proc = (if \<not> already_has_stream_handler
                  then proc\<lparr>task_logger_propagate := True\<rparr> else proc);
          env_vars = [(''AIRFLOW_TEST_MODE'', ''True'')];
          proc = (case arg_env_vars args of
                    None \<Rightarrow> proc
                  | Some vars \<Rightarrow>
                      if vars \<noteq> []
                      then proc\<lparr>environ := dict_update (environ proc) (dict_update env_vars vars)\<rparr>
                      else proc)
      in (already_has_stream_handler, proc))"

text \<open>
  Then the workflow and the task are looked up, the parameters given on the command
  line are merged into the task's and the result is validated.
\<close>

definition task_test_load :: "ambient \<Rightarrow> cli_args \<Rightarrow> DAG option \<Rightarrow> exn + Operator" where
  "task_test_load amb args dag =
     (case (case dag of
              Some d \<Rightarrow> Some d
            | None \<Rightarrow> get_dag amb (arg_bundle_name args) (arg_dag_id args)) of
        None \<Rightarrow> Inl AirflowException
      | Some dag \<Rightarrow>
          (case get_task dag (arg_task_id args) of
             Inl e \<Rightarrow> Inl e
           | Inr task \<Rightarrow>
               (case (case arg_task_params args of
                        None \<Rightarrow> Inr task
                      | Some js \<Rightarrow>
                          if js \<noteq> []
                          then (case json_loads amb js of
                                  None \<Rightarrow> Inl JSONDecodeError
                                | Some passed_in_params \<Rightarrow>
                                    Inr (task\<lparr>op_task := (op_task task)
                                           \<lparr>params := dict_update (params (op_task task))
                                                         passed_in_params\<rparr>\<rparr>))
                          else Inr task) of
                  Inl e \<Rightarrow> Inl e
                | Inr task \<Rightarrow>
                    if params (op_task task) \<noteq> [] \<and> params_is_ParamsDict (op_task task) \<and>
                       \<not> params_valid amb (params (op_task task))
                    then Inl ParamValidationError
                    else Inr task)))"

text \<open>The command: setup, loading, binding with creation mode \<^verbatim>\<open>"db"\<close>, body and cleanup.\<close>

definition task_test ::
  "ambient \<Rightarrow> cli_args \<Rightarrow> DAG option \<Rightarrow> process \<times> store \<Rightarrow> (exn + unit) \<times> process \<times> store" where
  "task_test amb args dag st =
     (let (proc, session) = st;
          (already_has_stream_handler, proc) = task_test_setup args proc
      in case task_test_load amb args dag of
           Inl e \<Rightarrow> (Inl e, proc, session)
         | Inr task \<Rightarrow>
             (case get_ti amb task (arg_map_index args)
                     (arg_logical_date_or_run_id args) None Db session of
                (Inl e, session1) \<Rightarrow> (Inl e, proc, session1)
              | (Inr (ti, dr_created), session1) \<Rightarrow>
                  let (res, session2) = task_test_body amb args ti session1;
                      (proc, session3) =
                        task_test_finally already_has_stream_handler ti dr_created
                          (proc, session2)
                  in (res, proc, session3)))"

text \<open>Two instants one microsecond apart, and a third.\<close>

definition dt_a :: datetime where
  "dt_a = \<lparr>year = 2024, month = 1, day = 1, hour = 0, minute = 0, second = 0, microsecond = 0\<rparr>"

definition dt_b :: datetime where
  "dt_b = \<lparr>year = 2024, month = 1, day = 1, hour = 0, minute = 0, second = 0, microsecond = 1\<rparr>"

definition dt_c :: datetime where
  "dt_c = \<lparr>year = 2026, month = 11, day = 4, hour = 23, minute = 59, second = 58,
            microsecond = 123456\<rparr>"

section \<open>Concrete inputs\<close>

text \<open>
  A workflow \<open>W\<close> with a plain task \<open>t1\<close> and a mapped task \<open>m1\<close>, a published
  version, one stored run, and surroundings in which nothing parses as a date and the
  task body succeeds without touching the store.
\<close>

definition t1 :: Task where
  "t1 = \<lparr>task_id = ''t1'', needs_expansion = False, is_MappedOperator = False, pool = ''default_pool'', params = [],
          params_is_ParamsDict = True\<rparr>"

definition m1 :: Task where
  "m1 = \<lparr>task_id = ''m1'', needs_expansion = True, is_MappedOperator = True, pool = ''default_pool'', params = [],
          params_is_ParamsDict = True\<rparr>"

definition interval0 :: "datetime \<Rightarrow> DataInterval" where
  "interval0 d = \<lparr>di_start = d, di_end = d\<rparr>"

definition dag0 :: DAG where
  "dag0 = \<lparr>dag_id = ''W'', task_dict = [(''t1'', t1), (''m1'', m1)],
            infer_manual_data_interval = interval0\<rparr>"

definition op_t1 :: Operator where
  "op_t1 = \<lparr>op_task = t1, op_dag = Some dag0\<rparr>"

definition op_m1 :: Operator where
  "op_m1 = \<lparr>op_task = m1, op_dag = Some dag0\<rparr>"

definition op_orphan :: Operator where
  "op_orphan = \<lparr>op_task = m1, op_dag = None\<rparr>"

definition run0 :: DagRun where
  "run0 = \<lparr>dr_dag_id = ''W'', dr_run_id = Some ''manual_1'', dr_run_type = MANUAL,
            dr_logical_date = Some dt_a, dr_data_interval = None, dr_run_after = dt_a,
            dr_triggered_by = CLI, dr_triggering_user_name = None, dr_state = SUCCESS,
            dr_start_date = Some dt_a\<rparr>"

definition store0 :: store where
  "store0 = \<lparr>dag_runs = [run0], task_instances = [], dag_versions = [(''W'', 1)]\<rparr>"

text \<open>The default of the configured pattern: \<^verbatim>\<open>^[A-Za-z0-9_.~:+-]+$\<close>.\<close>

definition run_id_chars :: string where
  "run_id_chars =
     ''ABCDEFGHIJKLMNOPQRSTUVWXYZabcdefghijklmnopqrstuvwxyz0123456789_.~:+-''"

definition default_run_id_pattern :: "string \<Rightarrow> bool" where
  "default_run_id_pattern v \<longleftrightarrow> v \<noteq> [] \<and> list_all (\<lambda>c. c \<in> set run_id_chars) v"

definition no_date :: "string \<Rightarrow> datetime option" where
  "no_date v = None"

definition same_dag :: "DAG \<Rightarrow> DAG" where
  "same_dag d = d"

definition no_bundle :: "string \<Rightarrow> string \<Rightarrow> DAG option" where
  "no_bundle b d = None"

definition no_json :: "string \<Rightarrow> dict option" where
  "no_json js = None"

definition all_valid :: "dict \<Rightarrow> bool" where
  "all_valid ps = True"

definition only_pdb :: "string \<Rightarrow> bool" where
  "only_pdb m = (m = ''pdb'')"

definition body_ok :: "TaskInstance \<Rightarrow> store \<Rightarrow> (exn + TaskInstanceState option) \<times> store" where
  "body_ok ti session = (Inr (Some TI_SUCCESS), session)"

definition amb0 :: ambient where
  "amb0 = \<lparr>utcnow_run_after = dt_a, utcnow_run_id = dt_b, utcnow_start_date = dt_b,
            run_id_allowed = default_run_id_pattern, getuser = Some ''airflow'',
            parse = no_date, serialize_roundtrip = same_dag, created_run_state = RUNNING,
            get_dag = no_bundle, json_loads = no_json, params_valid = all_valid,
            importable = only_pdb, run_task = body_ok\<rparr>"

definition proc0 :: process where
  "proc0 = \<lparr>MASK_SECRETS_IN_LOGS = False, task_handlers_are_stream = [],
             task_logger_propagate = False, environ = []\<rparr>"

definition args0 :: cli_args where
  "args0 = \<lparr>arg_bundle_name = ''b'', arg_dag_id = ''W'', arg_task_id = ''t1'', arg_map_index = -1,
             arg_logical_date_or_run_id = None, arg_env_vars = None, arg_task_params = None,
             arg_post_mortem = False\<rparr>"

text \<open>
  A plain operator attached to no workflow; the store before any version of \<open>W\<close> is
  published, and the temporary run the test command creates there; a store without
  runs, and surroundings that read the instant \<^verbatim>\<open>2024-01-01T00:00:00\<close>.
\<close>

definition op_plain_orphan :: Operator where
  "op_plain_orphan = \<lparr>op_task = t1, op_dag = None\<rparr>"



definition store_no_runs :: store where
  "store_no_runs = \<lparr>dag_runs = [], task_instances = [], dag_versions = [(''W'', 1)]\<rparr>"

definition parse_new_year :: "string \<Rightarrow> datetime option" where
  "parse_new_year v = (if v = ''2024-01-01T00:00:00'' \<or> v = ''2024-01-01'' then Some dt_a else None)"

definition amb1 :: ambient where
  "amb1 = \<lparr>utcnow_run_after = dt_b, utcnow_run_id = dt_b, utcnow_start_date = dt_b,
            run_id_allowed = default_run_id_pattern, getuser = Some ''airflow'',
            parse = parse_new_year, serialize_roundtrip = same_dag, created_run_state = RUNNING,
            get_dag = no_bundle, json_loads = no_json, params_valid = all_valid,
            importable = only_pdb, run_task = body_ok\<rparr>"

text \<open>
  The instance of \<open>t1\<close> in the stored run and the store that holds it, later
  readings of the clock, and the run and the instance that are built in memory for
  \<^verbatim>\<open>2024-01-01T00:00:00\<close>.
\<close>

definition ti_stored :: TaskInstance where
  "ti_stored =
     \<lparr>ti_dag_id = ''W'', ti_task_id = ''t1'', ti_run_id = Some ''manual_1'', ti_map_index = -1,
      ti_dag_version_id = 1, ti_pool = ''default_pool'', ti_state = None, ti_task = Some t1,
      ti_dag_run = Some run0\<rparr>"

definition store_bound :: store where
  "store_bound = \<lparr>dag_runs = [run0], task_instances = [ti_stored], dag_versions = [(''W'', 1)]\<rparr>"

definition amb_later :: ambient where
  "amb_later = amb0\<lparr>utcnow_run_after := dt_c, utcnow_run_id := dt_c, utcnow_start_date := dt_c\<rparr>"

definition run_memory :: DagRun where
  "run_memory =
     \<lparr>dr_dag_id = ''W'', dr_run_id = Some ''2024-01-01T00:00:00'', dr_run_type = MANUAL,
      dr_logical_date = Some dt_a, dr_data_interval = Some \<lparr>di_start = dt_a, di_end = dt_a\<rparr>,
      dr_run_after = dt_a, dr_triggered_by = CLI, dr_triggering_user_name = Some ''airflow'',
      dr_state = RUNNING, dr_start_date = Some dt_b\<rparr>"

definition ti_memory :: TaskInstance where
  "ti_memory =
     \<lparr>ti_dag_id = ''W'', ti_task_id = ''t1'', ti_run_id = Some ''2024-01-01T00:00:00'',
      ti_map_index = -1, ti_dag_version_id = 1, ti_pool = ''default_pool'', ti_state = None,
      ti_task = Some t1, ti_dag_run = Some run_memory\<rparr>"

section \<open>Uniqueness of temporary run identifiers\<close>

lemma digit_char_inj: "a < 10 \<Longrightarrow> b < 10 \<Longrightarrow> digit_char a = digit_char b \<Longrightarrow> a = b"
  by (simp add: digit_char_def)

lemma length_zero_padded [simp]: "length (zero_padded k n) = k"
  by (induction k arbitrary: n) simp_all

lemma zero_padded_inj:
  "n < 10 ^ k \<Longrightarrow> m < 10 ^ k \<Longrightarrow> zero_padded k n = zero_padded k m \<Longrightarrow> n = m"
proof (induction k arbitrary: n m)
  case 0
  then show ?case by simp
next
  case (Suc k)
  from Suc.prems(3) have eq: "zero_padded k (n div 10) = zero_padded k (m div 10)"
    and dg: "digit_char (n mod 10) = digit_char (m mod 10)"
    by simp_all
  from Suc.prems(1,2) have "n div 10 < 10 ^ k" "m div 10 < 10 ^ k"
    by (simp_all add: less_mult_imp_div_less mult.commute)
  with Suc.IH eq have "n div 10 = m div 10" by blast
  moreover from dg have "n mod 10 = m mod 10"
    by (intro digit_char_inj) simp_all
  ultimately show ?case
    by (metis div_mult_mod_eq)
qed

lemma fraction_inj:
  assumes "u < 1000000" "v < 1000000"
    and "(if u = 0 then [] else ''.'' @ zero_padded 6 u) @ s
       = (if v = 0 then [] else ''.'' @ zero_padded 6 v) @ s"
  shows "u = v"
proof -
  from assms(3) have "(if u = 0 then [] else ''.'' @ zero_padded 6 u)
       = (if v = 0 then [] else ''.'' @ zero_padded 6 v)" by simp
  then show ?thesis
  proof (cases "u = 0"; cases "v = 0")
    assume "u \<noteq> 0" "v \<noteq> 0"
      and "(if u = 0 then [] else ''.'' @ zero_padded 6 u)
       = (if v = 0 then [] else ''.'' @ zero_padded 6 v)"
    then have "zero_padded 6 u = zero_padded 6 v" by simp
    with assms(1,2) show ?thesis by (intro zero_padded_inj[of _ 6]) simp_all
  qed simp_all
qed

lemma isoformat_inj:
  assumes "valid_datetime d1" "valid_datetime d2" "isoformat d1 = isoformat d2"
  shows "d1 = d2"
proof -
  let ?f = "\<lambda>u. (if u = 0 then [] else ''.'' @ zero_padded 6 u) @ ''+00:00''"
  from assms(3) have parts:
    "zero_padded 4 (year d1) = zero_padded 4 (year d2)"
    "zero_padded 2 (month d1) = zero_padded 2 (month d2)"
    "zero_padded 2 (day d1) = zero_padded 2 (day d2)"
    "zero_padded 2 (hour d1) = zero_padded 2 (hour d2)"
    "zero_padded 2 (minute d1) = zero_padded 2 (minute d2)"
    "zero_padded 2 (second d1) = zero_padded 2 (second d2)"
    "?f (microsecond d1) = ?f (microsecond d2)"
    unfolding isoformat_def by simp_all
  from assms(1,2) have "year d1 = year d2"
    by (intro zero_padded_inj[OF _ _ parts(1)]) (simp_all add: valid_datetime_def)
  moreover from assms(1,2) have "month d1 = month d2"
    by (intro zero_padded_inj[OF _ _ parts(2)]) (simp_all add: valid_datetime_def)
  moreover from assms(1,2) have "day d1 = day d2"
    by (intro zero_padded_inj[OF _ _ parts(3)]) (simp_all add: valid_datetime_def)
  moreover from assms(1,2) have "hour d1 = hour d2"
    by (intro zero_padded_inj[OF _ _ parts(4)]) (simp_all add: valid_datetime_def)
  moreover from assms(1,2) have "minute d1 = minute d2"
    by (intro zero_padded_inj[OF _ _ parts(5)]) (simp_all add: valid_datetime_def)
  moreover from assms(1,2) have "second d1 = second d2"
    by (intro zero_padded_inj[OF _ _ parts(6)]) (simp_all add: valid_datetime_def)
  moreover from assms(1,2) have "microsecond d1 = microsecond d2"
    by (intro fraction_inj[OF _ _ parts(7)]) (simp_all add: valid_datetime_def)
  ultimately show ?thesis
    by simp
qed

lemma generate_temporary_run_id_inj:
  "valid_datetime d1 \<Longrightarrow> valid_datetime d2 \<Longrightarrow>
   generate_temporary_run_id d1 = generate_temporary_run_id d2 \<Longrightarrow> d1 = d2"
  by (simp add: generate_temporary_run_id_def isoformat_inj)

lemma ascii_digits:
  "char_of (48::nat) = CHR ''0''" "char_of (49::nat) = CHR ''1''" "char_of (50::nat) = CHR ''2''"
  "char_of (51::nat) = CHR ''3''" "char_of (52::nat) = CHR ''4''" "char_of (53::nat) = CHR ''5''"
  "char_of (54::nat) = CHR ''6''" "char_of (55::nat) = CHR ''7''" "char_of (56::nat) = CHR ''8''"
  "char_of (57::nat) = CHR ''9''"
  by code_simp+

lemma digit_char_nth: "k < 10 \<Longrightarrow> digit_char k = ''0123456789'' ! k"
proof -
  assume "k < 10"
  then have "k \<in> {0, 1, 2, 3, 4, 5, 6, 7, 8, 9}" by auto
  then show ?thesis
    by (auto simp: digit_char_def ascii_digits)
qed

lemma zero_padded_2: "zero_padded 2 n = [digit_char (n div 10 mod 10), digit_char (n mod 10)]"
  by (simp add: numeral_2_eq_2)

lemma zero_padded_4:
  "zero_padded 4 n = [digit_char (n div 1000 mod 10), digit_char (n div 100 mod 10),
                      digit_char (n div 10 mod 10), digit_char (n mod 10)]"
proof -
  have a: "(4::nat) = Suc (Suc (Suc (Suc 0)))" by simp
  show ?thesis
    by (subst a) (simp add: div_mult2_eq[symmetric])
qed

lemma zero_padded_6:
  "zero_padded 6 n = [digit_char (n div 100000 mod 10), digit_char (n div 10000 mod 10),
                      digit_char (n div 1000 mod 10), digit_char (n div 100 mod 10),
                      digit_char (n div 10 mod 10), digit_char (n mod 10)]"
proof -
  have a: "(6::nat) = Suc (Suc (Suc (Suc (Suc (Suc 0)))))" by simp
  show ?thesis
    by (subst a) (simp add: div_mult2_eq[symmetric])
qed

lemma isoformat_rendering:
  "isoformat d =
     [''0123456789'' ! (year d div 1000 mod 10), ''0123456789'' ! (year d div 100 mod 10),
      ''0123456789'' ! (year d div 10 mod 10), ''0123456789'' ! (year d mod 10), CHR ''-'',
      ''0123456789'' ! (month d div 10 mod 10), ''0123456789'' ! (month d mod 10), CHR ''-'',
      ''0123456789'' ! (day d div 10 mod 10), ''0123456789'' ! (day d mod 10), CHR ''T'',
      ''0123456789'' ! (hour d div 10 mod 10), ''0123456789'' ! (hour d mod 10), CHR '':'',
      ''0123456789'' ! (minute d div 10 mod 10), ''0123456789'' ! (minute d mod 10), CHR '':'',
      ''0123456789'' ! (second d div 10 mod 10), ''0123456789'' ! (second d mod 10)] @
     (if microsecond d = 0 then []
      else [CHR ''.'',
            ''0123456789'' ! (microsecond d div 100000 mod 10),
            ''0123456789'' ! (microsecond d div 10000 mod 10),
            ''0123456789'' ! (microsecond d div 1000 mod 10),
            ''0123456789'' ! (microsecond d div 100 mod 10),
            ''0123456789'' ! (microsecond d div 10 mod 10),
            ''0123456789'' ! (microsecond d mod 10)]) @
     ''+00:00''"
proof -
  have m: "\<And>k. digit_char (k mod 10) = ''0123456789'' ! (k mod 10)"
    by (rule digit_char_nth) simp
  show ?thesis
    unfolding isoformat_def zero_padded_2 zero_padded_4 zero_padded_6 m by simp
qed

text \<open>
  Claim C6. A generated temporary run identifier is the prefix
  \<^verbatim>\<open>__airflow_temporary_run_\<close>, the ISO-8601 rendering of the current instant
  (\<^verbatim>\<open>YYYY-MM-DDTHH:MM:SS\<close>, the six digits of the microseconds after a dot when they
  are not zero, and the offset \<^verbatim>\<open>+00:00\<close>, every field in zero-padded decimal
  digits), and the suffix \<^verbatim>\<open>__\<close>; two readings of the clock at least one microsecond
  apart give distinct identifiers.
\<close>

theorem temporary_run_id_format_unique:
  "generate_temporary_run_id now =
     ''__airflow_temporary_run_'' @
       [''0123456789'' ! (year now div 1000 mod 10), ''0123456789'' ! (year now div 100 mod 10),
        ''0123456789'' ! (year now div 10 mod 10), ''0123456789'' ! (year now mod 10), CHR ''-'',
        ''0123456789'' ! (month now div 10 mod 10), ''0123456789'' ! (month now mod 10), CHR ''-'',
        ''0123456789'' ! (day now div 10 mod 10), ''0123456789'' ! (day now mod 10), CHR ''T'',
        ''0123456789'' ! (hour now div 10 mod 10), ''0123456789'' ! (hour now mod 10), CHR '':'',
        ''0123456789'' ! (minute now div 10 mod 10), ''0123456789'' ! (minute now mod 10), CHR '':'',
        ''0123456789'' ! (second now div 10 mod 10), ''0123456789'' ! (second now mod 10)] @
       (if microsecond now = 0 then []
        else [CHR ''.'',
              ''0123456789'' ! (microsecond now div 100000 mod 10),
              ''0123456789'' ! (microsecond now div 10000 mod 10),
              ''0123456789'' ! (microsecond now div 1000 mod 10),
              ''0123456789'' ! (microsecond now div 100 mod 10),
              ''0123456789'' ! (microsecond now div 10 mod 10),
              ''0123456789'' ! (microsecond now mod 10)]) @
       ''+00:00'' @ ''__'' \<and>
   (valid_datetime d1 \<and> valid_datetime d2 \<and> 1 \<le> \<bar>timestamp_us d1 - timestamp_us d2\<bar>
      \<longrightarrow> generate_temporary_run_id d1 \<noteq> generate_temporary_run_id d2)"
proof (intro conjI impI)
  show "generate_temporary_run_id now =
     ''__airflow_temporary_run_'' @
       [''0123456789'' ! (year now div 1000 mod 10), ''0123456789'' ! (year now div 100 mod 10),
        ''0123456789'' ! (year now div 10 mod 10), ''0123456789'' ! (year now mod 10), CHR ''-'',
        ''0123456789'' ! (month now div 10 mod 10), ''0123456789'' ! (month now mod 10), CHR ''-'',
        ''0123456789'' ! (day now div 10 mod 10), ''0123456789'' ! (day now mod 10), CHR ''T'',
        ''0123456789'' ! (hour now div 10 mod 10), ''0123456789'' ! (hour now mod 10), CHR '':'',
        ''0123456789'' ! (minute now div 10 mod 10), ''0123456789'' ! (minute now mod 10), CHR '':'',
        ''0123456789'' ! (second now div 10 mod 10), ''0123456789'' ! (second now mod 10)] @
       (if microsecond now = 0 then []
        else [CHR ''.'',
              ''0123456789'' ! (microsecond now div 100000 mod 10),
              ''0123456789'' ! (microsecond now div 10000 mod 10),
              ''0123456789'' ! (microsecond now div 1000 mod 10),
              ''0123456789'' ! (microsecond now div 100 mod 10),
              ''0123456789'' ! (microsecond now div 10 mod 10),
              ''0123456789'' ! (microsecond now mod 10)]) @
       ''+00:00'' @ ''__''"
    unfolding generate_temporary_run_id_def isoformat_rendering by simp
next
  assume h: "valid_datetime d1 \<and> valid_datetime d2 \<and> 1 \<le> \<bar>timestamp_us d1 - timestamp_us d2\<bar>"
  then have "d1 \<noteq> d2" by auto
  with h show "generate_temporary_run_id d1 \<noteq> generate_temporary_run_id d2"
    using generate_temporary_run_id_inj by blast
qed

lemma valid_dt_a: "valid_datetime dt_a"
  by (simp add: valid_datetime_def dt_a_def)

lemma valid_dt_b: "valid_datetime dt_b"
  by (simp add: valid_datetime_def dt_b_def)

lemma timestamp_dt_a_b: "timestamp_us dt_b - timestamp_us dt_a = 1"
  by (simp add: timestamp_us_def toordinal_def dt_a_def dt_b_def)

theorem temporary_run_id_format_unique_witness:
  "generate_temporary_run_id dt_a = ''__airflow_temporary_run_2024-01-01T00:00:00+00:00__'' \<and>
   generate_temporary_run_id dt_b = ''__airflow_temporary_run_2024-01-01T00:00:00.000001+00:00__'' \<and>
   generate_temporary_run_id dt_c = ''__airflow_temporary_run_2026-11-04T23:59:58.123456+00:00__'' \<and>
   valid_datetime dt_a \<and> valid_datetime dt_b \<and> 1 \<le> \<bar>timestamp_us dt_a - timestamp_us dt_b\<bar> \<and>
   generate_temporary_run_id dt_a \<noteq> generate_temporary_run_id dt_b"
proof -
  have a: "generate_temporary_run_id dt_a = ''__airflow_temporary_run_2024-01-01T00:00:00+00:00__''"
    using temporary_run_id_format_unique [of dt_a dt_a dt_a] by (simp add: dt_a_def)
  have b: "generate_temporary_run_id dt_b = ''__airflow_temporary_run_2024-01-01T00:00:00.000001+00:00__''"
    using temporary_run_id_format_unique [of dt_b dt_a dt_a] by (simp add: dt_b_def)
  have c: "generate_temporary_run_id dt_c = ''__airflow_temporary_run_2026-11-04T23:59:58.123456+00:00__''"
    using temporary_run_id_format_unique [of dt_c dt_a dt_a] by (simp add: dt_c_def)
  have h: "valid_datetime dt_a \<and> valid_datetime dt_b \<and> 1 \<le> \<bar>timestamp_us dt_a - timestamp_us dt_b\<bar>"
    using valid_dt_a valid_dt_b timestamp_dt_a_b by linarith
  from temporary_run_id_format_unique [of dt_a dt_a dt_b] h
  have "generate_temporary_run_id dt_a \<noteq> generate_temporary_run_id dt_b"
    by blast
  with a b c h show ?thesis by blast
qed

section \<open>Properties of the resolver, the binder and the test command\<close>

lemma task_dag_attached [simp]: "op_dag task = Some d \<Longrightarrow> task_dag task = Inr (Some d)"
  by (simp add: task_dag_def)

lemma fetch_Some:
  assumes "fst (fetch_dag_run_from_run_id_or_logical_date_string amb did v session) = Some r"
  shows "r \<in> set (dag_runs session) \<and> dr_dag_id r = did \<and>
         (dr_run_id r = Some v \<or> (parse amb v \<noteq> None \<and> dr_logical_date r = parse amb v))"
  using assms unfolding fetch_dag_run_from_run_id_or_logical_date_string_def
  by (auto split: option.splits simp: find_Some_iff)

lemma fetch_None:
  assumes "fst (fetch_dag_run_from_run_id_or_logical_date_string amb did v session) = None"
    and "r \<in> set (dag_runs session)" and "dr_dag_id r = did"
  shows "dr_run_id r \<noteq> Some v \<and> (parse amb v = None \<or> dr_logical_date r \<noteq> parse amb v)"
  using assms unfolding fetch_dag_run_from_run_id_or_logical_date_string_def
  by (auto split: option.splits simp: find_None_iff)

lemma get_dag_run_found:
  assumes "v \<noteq> []"
    and "fst (fetch_dag_run_from_run_id_or_logical_date_string amb (dag_id dag) v session) = Some r"
  shows "get_dag_run amb dag c (Some v) session = (Inr (r, False), session)"
  using assms unfolding get_dag_run_def
  by (cases "fetch_dag_run_from_run_id_or_logical_date_string amb (dag_id dag) v session") simp

text \<open>
  Claim C2. When a supplied, non-empty identifier matches a stored run of the
  workflow, as its run identifier or as a parseable instant equal to the run's logical
  instant, \<^verbatim>\<open>_get_dag_run\<close> returns such a run with the created flag false and leaves
  the store as it was, whatever the creation mode.
\<close>

theorem get_dag_run_existing_run:
  assumes "v \<noteq> []"
    and "\<exists>r\<in>set (dag_runs session). dr_dag_id r = dag_id dag \<and>
           (dr_run_id r = Some v \<or> (parse amb v \<noteq> None \<and> dr_logical_date r = parse amb v))"
  shows "\<exists>r\<in>set (dag_runs session). dr_dag_id r = dag_id dag \<and>
           (dr_run_id r = Some v \<or> (parse amb v \<noteq> None \<and> dr_logical_date r = parse amb v)) \<and>
           get_dag_run amb dag c (Some v) session = (Inr (r, False), session)"
proof (cases "fst (fetch_dag_run_from_run_id_or_logical_date_string amb (dag_id dag) v session)")
  case None
  from assms(2) obtain r where r: "r \<in> set (dag_runs session)" "dr_dag_id r = dag_id dag"
    and m: "dr_run_id r = Some v \<or> (parse amb v \<noteq> None \<and> dr_logical_date r = parse amb v)"
    by blast
  from fetch_None[OF None r] m have False by auto
  then show ?thesis ..
next
  case (Some r)
  from fetch_Some[OF Some] get_dag_run_found[OF assms(1) Some, of c] show ?thesis
    by (intro bexI[of _ r]) simp_all
qed

theorem get_dag_run_existing_run_witness:
  "''manual_1'' \<noteq> [] \<and> run0 \<in> set (dag_runs store0) \<and>
   get_dag_run amb0 dag0 Db (Some ''manual_1'') store0 = (Inr (run0, False), store0)"
proof -
  have h: "\<exists>r\<in>set (dag_runs store0). dr_dag_id r = dag_id dag0 \<and>
           (dr_run_id r = Some ''manual_1'' \<or>
            (parse amb0 ''manual_1'' \<noteq> None \<and> dr_logical_date r = parse amb0 ''manual_1''))"
    by (simp add: store0_def run0_def dag0_def)
  have "''manual_1'' \<noteq> []" by simp
  from get_dag_run_existing_run[OF this h, of Db]
  show ?thesis by (simp add: store0_def)
qed


lemma get_dag_run_not_found:
  assumes "v \<noteq> []"
    and "fst (fetch_dag_run_from_run_id_or_logical_date_string amb (dag_id dag) v session) = None"
  shows "get_dag_run amb dag No_create (Some v) session = (Inl (DagRunNotFound (dag_id dag) v), session)"
  using assms unfolding get_dag_run_def
  by (cases "fetch_dag_run_from_run_id_or_logical_date_string amb (dag_id dag) v session") simp

lemma fetch_None_intro:
  assumes "\<forall>r\<in>set (dag_runs session). dr_dag_id r = did \<longrightarrow>
             dr_run_id r \<noteq> Some v \<and> (parse amb v = None \<or> dr_logical_date r \<noteq> parse amb v)"
  shows "fst (fetch_dag_run_from_run_id_or_logical_date_string amb did v session) = None"
proof (cases "fst (fetch_dag_run_from_run_id_or_logical_date_string amb did v session)")
  case (Some r)
  from fetch_Some[OF Some] assms show ?thesis by auto
qed simp

text \<open>
  Claim C9. When a non-empty identifier is supplied, no stored run of the workflow
  has it as run identifier or has its parsed instant as logical instant, and creation is
  off, \<^verbatim>\<open>_get_dag_run\<close> fails with \<^verbatim>\<open>DagRunNotFound\<close>.
\<close>

theorem get_dag_run_unknown_identifier:
  assumes "v \<noteq> []"
    and "\<forall>r\<in>set (dag_runs session). dr_dag_id r = dag_id dag \<longrightarrow>
           dr_run_id r \<noteq> Some v \<and> (parse amb v = None \<or> dr_logical_date r \<noteq> parse amb v)"
  shows "get_dag_run amb dag No_create (Some v) session = (Inl (DagRunNotFound (dag_id dag) v), session)"
  using get_dag_run_not_found[OF assms(1) fetch_None_intro[OF assms(2)]] .

theorem get_dag_run_unknown_identifier_witness:
  "get_dag_run amb0 dag0 No_create (Some ''nope'') store0 = (Inl (DagRunNotFound ''W'' ''nope''), store0)"
proof -
  have h1: "''nope'' \<noteq> []" by simp
  have h2: "\<forall>r\<in>set (dag_runs store0). dr_dag_id r = dag_id dag0 \<longrightarrow>
      dr_run_id r \<noteq> Some ''nope'' \<and>
      (parse amb0 ''nope'' = None \<or> dr_logical_date r \<noteq> parse amb0 ''nope'')"
    by (simp add: store0_def run0_def amb0_def no_date_def)
  from get_dag_run_unknown_identifier[OF h1 h2] show ?thesis
    by (simp add: dag0_def)
qed

text \<open>
  Claim C8, amended. With an empty identifier (\<^verbatim>\<open>None\<close> or the empty string)
  and creation off, \<^verbatim>\<open>_get_dag_run\<close> fails with the \<^verbatim>\<open>ValueError\<close> that asks for
  an identifier, whatever the workflow and the store; \<^verbatim>\<open>_get_ti\<close> fails with that
  same error once its two earlier checks pass, that is, for a task attached to a
  workflow that lists it.
\<close>

theorem empty_identifier_without_creation:
  assumes "\<not> truthy ident"
  shows "get_dag_run amb dag No_create ident session = (Inl (ValueError Must_provide), session) \<and>
         (\<forall>d. op_dag task = Some d \<and> task_id (op_task task) \<in> set (map fst (task_dict d)) \<longrightarrow>
              get_ti amb task map_index ident pool_override No_create session
                = (Inl (ValueError Must_provide), session))"
  using assms unfolding get_dag_run_def get_ti_def
  by auto

theorem empty_identifier_without_creation_witness:
  "get_dag_run amb0 dag0 No_create None store0 = (Inl (ValueError Must_provide), store0) \<and>
   get_ti amb0 op_t1 (-1) None None No_create store0 = (Inl (ValueError Must_provide), store0)"
proof -
  have h: "\<not> truthy None" by simp
  have d: "op_dag op_t1 = Some dag0 \<and> task_id (op_task op_t1) \<in> set (map fst (task_dict dag0))"
    by (simp add: op_t1_def dag0_def t1_def)
  from empty_identifier_without_creation[OF h, of amb0 dag0 store0 op_t1 "-1" None] d
  show ?thesis by blast
qed

text \<open>
  Claim C8 as stated fails for \<^verbatim>\<open>_get_ti\<close>: for a plain operator attached to no
  workflow, with no identifier and creation off, reading \<^verbatim>\<open>task.dag\<close> raises
  \<^verbatim>\<open>RuntimeError\<close> before the identifier is looked at.
\<close>

theorem get_ti_plain_orphan_counterexample:
  "get_ti amb0 op_plain_orphan (-1) None None No_create store0
     = (Inl (RuntimeError Operator_without_dag), store0)"
  by (simp add: get_ti_def task_dag_def op_plain_orphan_def t1_def)

lemma get_ti_map_index_check:
  assumes "op_dag task = Some dag" and "task_id (op_task task) \<in> set (map fst (task_dict dag))"
    and "truthy ident \<or> c \<noteq> No_create"
  shows "(needs_expansion (op_task task) \<and> map_index < 0 \<longrightarrow>
            get_ti amb task map_index ident pool_override c session
              = (Inl (RuntimeError No_map_index), session)) \<and>
         (\<not> needs_expansion (op_task task) \<and> map_index \<ge> 0 \<longrightarrow>
            get_ti amb task map_index ident pool_override c session
              = (Inl (RuntimeError Unexpected_map_index), session))"
  using assms unfolding get_ti_def by auto

text \<open>
  Claim C3, amended. For a call of \<^verbatim>\<open>_get_ti\<close> that passes the checks made before
  (the task is attached to a workflow, the workflow lists the task, and an identifier is
  given or creation is on): a mapped task with a negative map index fails with the
  \<^verbatim>\<open>RuntimeError\<close> of the missing map index, and a task that is not mapped with a
  map index of zero or more fails with the \<^verbatim>\<open>RuntimeError\<close> of the unexpected one.
\<close>

theorem get_ti_map_index_mismatch:
  assumes "op_dag task = Some dag" and "task_id (op_task task) \<in> set (map fst (task_dict dag))"
    and "truthy ident \<or> c \<noteq> No_create"
  shows "(needs_expansion (op_task task) \<and> map_index < 0 \<longrightarrow>
            get_ti amb task map_index ident pool_override c session
              = (Inl (RuntimeError No_map_index), session)) \<and>
         (\<not> needs_expansion (op_task task) \<and> map_index \<ge> 0 \<longrightarrow>
            get_ti amb task map_index ident pool_override c session
              = (Inl (RuntimeError Unexpected_map_index), session))"
  using get_ti_map_index_check[OF assms] .

theorem get_ti_map_index_mismatch_witness:
  "op_dag op_m1 = Some dag0 \<and> task_id (op_task op_m1) \<in> set (map fst (task_dict dag0)) \<and>
   op_dag op_t1 = Some dag0 \<and> task_id (op_task op_t1) \<in> set (map fst (task_dict dag0)) \<and>
   needs_expansion (op_task op_m1) \<and> \<not> needs_expansion (op_task op_t1) \<and>
   get_ti amb0 op_m1 (-1) None None Db store0 = (Inl (RuntimeError No_map_index), store0) \<and>
   get_ti amb0 op_t1 0 None None Db store0 = (Inl (RuntimeError Unexpected_map_index), store0)"
proof -
  have a: "op_dag op_m1 = Some dag0" "task_id (op_task op_m1) \<in> set (map fst (task_dict dag0))"
    "needs_expansion (op_task op_m1)"
    by (simp_all add: op_m1_def dag0_def m1_def)
  have b: "op_dag op_t1 = Some dag0" "task_id (op_task op_t1) \<in> set (map fst (task_dict dag0))"
    "\<not> needs_expansion (op_task op_t1)"
    by (simp_all add: op_t1_def dag0_def t1_def)
  have c: "truthy None \<or> Db \<noteq> No_create" by simp
  from get_ti_map_index_mismatch[OF a(1,2) c, of "-1" amb0 None store0] a(3)
  have 1: "get_ti amb0 op_m1 (-1) None None Db store0 = (Inl (RuntimeError No_map_index), store0)"
    by simp
  from get_ti_map_index_mismatch[OF b(1,2) c, of 0 amb0 None store0] b(3)
  have 2: "get_ti amb0 op_t1 0 None None Db store0 = (Inl (RuntimeError Unexpected_map_index), store0)"
    by simp
  from a b 1 2 show ?thesis by blast
qed

text \<open>
  Claim C3 as stated fails: a mapped task that is attached to no workflow, bound
  with map index \<open>-1\<close>, fails with a \<^verbatim>\<open>ValueError\<close>, not with a
  \<^verbatim>\<open>RuntimeError\<close>.
\<close>

theorem get_ti_orphan_task_counterexample:
  "needs_expansion (op_task op_orphan) \<and>
   get_ti amb0 op_orphan (-1) None None Db store0 = (Inl (ValueError Task_without_dag), store0)"
  by (simp add: get_ti_def task_dag_def op_orphan_def m1_def)

lemma get_dag_run_no_runtime_error:
  "fst (get_dag_run amb dag c ident session) \<noteq> Inl (RuntimeError m)"
proof -
  have n: "\<And>rid ld di ra u.
     fst (case new_DagRun amb (dag_id dag) rid MANUAL ld di ra CLI u RUNNING of
            Inl e \<Rightarrow> (Inl e, session)
          | Inr r \<Rightarrow> (Inr (r, True), session)) \<noteq> Inl (RuntimeError m)"
    by (auto simp: new_DagRun_def validate_run_id_def split: option.splits sum.splits)
  show ?thesis
    unfolding get_dag_run_def
    by (simp add: Let_def n split: option.splits prod.splits CreateIfNecessary.splits)
qed

lemma get_ti_after_checks:
  assumes "op_dag task = Some dag" "task_id (op_task task) \<in> set (map fst (task_dict dag))"
    "truthy ident \<or> c \<noteq> No_create"
    "\<not> (needs_expansion (op_task task) \<and> map_index < 0)"
    "\<not> (\<not> needs_expansion (op_task task) \<and> map_index \<ge> 0)"
  shows "get_ti amb task map_index ident pool_override c session =
     (case get_dag_run amb dag c ident session of
               (Inl e, session1) \<Rightarrow> (Inl e, session1)
             | (Inr (dag_run, dr_created), session1) \<Rightarrow>
                 (case get_task_instance dag_run (task_id (op_task task)) map_index session1 of
                    None \<Rightarrow>
                      if c = No_create
                      then (Inl (TaskInstanceNotFound (dag_id dag) (task_id (op_task task)) map_index
                                   ident), session1)
                      else
                        (case get_latest_version (dag_id dag) session1 of
                           None \<Rightarrow> (Inl (ValueError (Dag_not_serialized (dag_id dag))), session1)
                         | Some dag_version \<Rightarrow>
                             let ti = new_TaskInstance (op_task task) (dag_id dag) (dr_run_id dag_run)
                                        map_index dag_version;
                                 session2 = (if in_session dag_run session1
                                             then session_add session1 ti else session1);
                                 ti = ti\<lparr>ti_dag_run := Some dag_run\<rparr>;
                                 ti = refresh_from_task ti (op_task task) pool_override;
                                 ti = refresh_from_task ti (op_task task) pool_override
                             in (Inr (ti, dr_created), session_flush session2 ti))
                  | Some ti \<Rightarrow>
                      let ti = refresh_from_task ti (op_task task) pool_override;
                          ti = refresh_from_task ti (op_task task) pool_override
                      in (Inr (ti, dr_created), session_flush session1 ti)))"
  using assms unfolding get_ti_def by auto

lemma get_ti_unattached_store:
  assumes "op_dag task = None"
  shows "snd (get_ti amb task map_index ident pool_override c session) = session"
  using assms unfolding get_ti_def task_dag_def
  by (auto split: option.splits sum.splits)

lemma get_ti_mismatch_store:
  assumes "(needs_expansion (op_task task) \<and> map_index < 0) \<or>
           (\<not> needs_expansion (op_task task) \<and> 0 \<le> map_index)"
  shows "snd (get_ti amb task map_index ident pool_override c session) = session"
proof (cases "op_dag task")
  case None
  then show ?thesis by (rule get_ti_unattached_store)
next
  case (Some d)
  with assms show ?thesis unfolding get_ti_def by auto
qed

lemma get_ti_runtime_error_store:
  assumes "fst (get_ti amb task map_index ident pool_override c session) = Inl (RuntimeError m)"
  shows "snd (get_ti amb task map_index ident pool_override c session) = session"
proof (cases "op_dag task")
  case None
  then show ?thesis by (rule get_ti_unattached_store)
next
  case (Some dag)
  show ?thesis
  proof (cases "(needs_expansion (op_task task) \<and> map_index < 0) \<or>
                (\<not> needs_expansion (op_task task) \<and> 0 \<le> map_index)")
    case True
    then show ?thesis by (rule get_ti_mismatch_store)
  next
    case False
    then have n1: "\<not> (needs_expansion (op_task task) \<and> map_index < 0)"
      and n2: "\<not> (\<not> needs_expansion (op_task task) \<and> map_index \<ge> 0)" by auto
    show ?thesis
    proof (cases "task_id (op_task task) \<in> set (map fst (task_dict dag)) \<and>
                  (truthy ident \<or> c \<noteq> No_create)")
      case False
      with Some show ?thesis unfolding get_ti_def by auto
    next
      case True
      then have t: "task_id (op_task task) \<in> set (map fst (task_dict dag))"
        and i: "truthy ident \<or> c \<noteq> No_create" by auto
      obtain res s1 where g: "get_dag_run amb dag c ident session = (res, s1)"
        by (cases "get_dag_run amb dag c ident session")
      with get_dag_run_no_runtime_error[of amb dag c ident session m]
      have r: "res \<noteq> Inl (RuntimeError m)" by simp
      from assms have False
        unfolding get_ti_after_checks[OF Some t i n1 n2] g using r
        by (auto simp: Let_def split: sum.splits option.splits if_splits prod.splits)
      then show ?thesis ..
    qed
  qed
qed

text \<open>
  Claim C10. The map-index check of \<^verbatim>\<open>_get_ti\<close> comes before the run is
  resolved: whenever the call fails with a \<^verbatim>\<open>RuntimeError\<close>, and whenever the map
  index does not fit the task, the store comes back unchanged, in every creation mode.
\<close>

theorem get_ti_runtime_error_atomic:
  "(fst (get_ti amb task map_index ident pool_override c session) = Inl (RuntimeError m) \<longrightarrow>
      snd (get_ti amb task map_index ident pool_override c session) = session) \<and>
   ((needs_expansion (op_task task) \<and> map_index < 0) \<or>
    (\<not> needs_expansion (op_task task) \<and> 0 \<le> map_index) \<longrightarrow>
      snd (get_ti amb task map_index ident pool_override c session) = session)"
  using get_ti_runtime_error_store get_ti_mismatch_store by blast

theorem get_ti_runtime_error_atomic_witness:
  "fst (get_ti amb0 op_m1 (-1) None None Db store0) = Inl (RuntimeError No_map_index) \<and>
   snd (get_ti amb0 op_m1 (-1) None None Db store0) = store0"
proof -
  have f: "fst (get_ti amb0 op_m1 (-1) None None Db store0) = Inl (RuntimeError No_map_index)"
    by (simp add: get_ti_def task_dag_def op_m1_def dag0_def m1_def)
  with get_ti_runtime_error_atomic[of amb0 op_m1 "-1" None None Db store0 No_map_index]
  show ?thesis by blast
qed

lemma fetch_snd_when_None:
  "fst (fetch_dag_run_from_run_id_or_logical_date_string amb did v session) = None \<Longrightarrow>
   snd (fetch_dag_run_from_run_id_or_logical_date_string amb did v session) = parse amb v"
  unfolding fetch_dag_run_from_run_id_or_logical_date_string_def
  by (auto split: option.splits)

lemma get_dag_run_memory_unmatched:
  assumes "v \<noteq> []"
    and "fst (fetch_dag_run_from_run_id_or_logical_date_string amb (dag_id dag) v session) = None"
  shows "get_dag_run amb dag Memory (Some v) session =
           (case new_DagRun amb (dag_id dag) (Some v) MANUAL (parse amb v)
                   (map_option (infer_manual_data_interval dag) (parse amb v))
                   (case map_option (infer_manual_data_interval dag) (parse amb v) of
                      Some i \<Rightarrow> di_end i
                    | None \<Rightarrow> utcnow_run_after amb)
                   CLI (getuser amb) RUNNING of
              Inl e \<Rightarrow> (Inl e, session)
            | Inr r \<Rightarrow> (Inr (r, True), session))"
proof -
  from assms(2) fetch_snd_when_None[OF assms(2)]
  have "fetch_dag_run_from_run_id_or_logical_date_string amb (dag_id dag) v session
          = (None, parse amb v)"
    by (simp add: prod_eq_iff)
  with assms(1) show ?thesis
    unfolding get_dag_run_def by (simp add: Let_def)
qed

lemma get_dag_run_memory_empty:
  assumes "\<not> truthy ident"
  shows "\<exists>r. get_dag_run amb dag Memory ident session = (Inr (r, True), session) \<and>
             dr_dag_id r = dag_id dag \<and> dr_run_id r = None \<and> dr_logical_date r = None \<and>
             dr_state r = RUNNING \<and> dr_start_date r = Some (utcnow_start_date amb)"
  using assms unfolding get_dag_run_def
  by (cases ident) (simp_all add: Let_def new_DagRun_def validate_run_id_def)

text \<open>
  Claim C4, amended. In creation mode \<^verbatim>\<open>memory\<close>, when no stored run matches:
  without an identifier, or with the empty one, \<^verbatim>\<open>_get_dag_run\<close> returns a run built
  in memory that has no run identifier (none is generated) and no logical instant;
  with an identifier that the configured pattern allows, the run has that identifier
  and the parsed input as logical instant; in both cases the created flag is true, the
  state is \<^verbatim>\<open>RUNNING\<close> with the start date set, and the store is left as it was.
  An identifier outside the pattern makes the constructor raise \<^verbatim>\<open>ValueError\<close>,
  the store again untouched.
\<close>

theorem get_dag_run_memory:
  assumes "\<forall>v. ident = Some v \<and> v \<noteq> [] \<longrightarrow>
             (\<forall>r\<in>set (dag_runs session). dr_dag_id r = dag_id dag \<longrightarrow>
                dr_run_id r \<noteq> Some v \<and> (parse amb v = None \<or> dr_logical_date r \<noteq> parse amb v))"
  shows "(\<not> truthy ident \<longrightarrow>
            (\<exists>r. get_dag_run amb dag Memory ident session = (Inr (r, True), session) \<and>
                 dr_dag_id r = dag_id dag \<and> dr_run_id r = None \<and> dr_logical_date r = None \<and>
                 dr_state r = RUNNING \<and> dr_start_date r = Some (utcnow_start_date amb))) \<and>
         (\<forall>v. ident = Some v \<and> v \<noteq> [] \<and> run_id_allowed amb v \<longrightarrow>
            (\<exists>r. get_dag_run amb dag Memory ident session = (Inr (r, True), session) \<and>
                 dr_dag_id r = dag_id dag \<and> dr_run_id r = Some v \<and>
                 dr_logical_date r = parse amb v \<and>
                 dr_state r = RUNNING \<and> dr_start_date r = Some (utcnow_start_date amb))) \<and>
         (\<forall>v. ident = Some v \<and> v \<noteq> [] \<and> \<not> run_id_allowed amb v \<longrightarrow>
            get_dag_run amb dag Memory ident session
              = (Inl (ValueError (Invalid_run_id v)), session))"
proof (intro conjI allI impI)
  assume "\<not> truthy ident"
  then show "\<exists>r. get_dag_run amb dag Memory ident session = (Inr (r, True), session) \<and>
                 dr_dag_id r = dag_id dag \<and> dr_run_id r = None \<and> dr_logical_date r = None \<and>
                 dr_state r = RUNNING \<and> dr_start_date r = Some (utcnow_start_date amb)"
    by (rule get_dag_run_memory_empty)
next
  fix v assume v: "ident = Some v \<and> v \<noteq> [] \<and> run_id_allowed amb v"
  with assms have "\<forall>r\<in>set (dag_runs session). dr_dag_id r = dag_id dag \<longrightarrow>
                dr_run_id r \<noteq> Some v \<and> (parse amb v = None \<or> dr_logical_date r \<noteq> parse amb v)"
    by blast
  from get_dag_run_memory_unmatched[OF _ fetch_None_intro[OF this]] v
  show "\<exists>r. get_dag_run amb dag Memory ident session = (Inr (r, True), session) \<and>
                 dr_dag_id r = dag_id dag \<and> dr_run_id r = Some v \<and>
                 dr_logical_date r = parse amb v \<and>
                 dr_state r = RUNNING \<and> dr_start_date r = Some (utcnow_start_date amb)"
    by (simp add: new_DagRun_def validate_run_id_def)
next
  fix v assume v: "ident = Some v \<and> v \<noteq> [] \<and> \<not> run_id_allowed amb v"
  with assms have "\<forall>r\<in>set (dag_runs session). dr_dag_id r = dag_id dag \<longrightarrow>
                dr_run_id r \<noteq> Some v \<and> (parse amb v = None \<or> dr_logical_date r \<noteq> parse amb v)"
    by blast
  from get_dag_run_memory_unmatched[OF _ fetch_None_intro[OF this]] v
  show "get_dag_run amb dag Memory ident session = (Inl (ValueError (Invalid_run_id v)), session)"
    by (simp add: new_DagRun_def validate_run_id_def)
qed

lemma new_year_allowed: "default_run_id_pattern ''2024-01-01T00:00:00''"
  by (simp add: default_run_id_pattern_def run_id_chars_def)

theorem get_dag_run_memory_witness:
  "get_dag_run amb1 dag0 Memory (Some ''2024-01-01T00:00:00'') store_no_runs =
     (Inr (\<lparr>dr_dag_id = ''W'', dr_run_id = Some ''2024-01-01T00:00:00'', dr_run_type = MANUAL,
            dr_logical_date = Some dt_a,
            dr_data_interval = Some \<lparr>di_start = dt_a, di_end = dt_a\<rparr>, dr_run_after = dt_a,
            dr_triggered_by = CLI, dr_triggering_user_name = Some ''airflow'',
            dr_state = RUNNING, dr_start_date = Some dt_b\<rparr>, True), store_no_runs)"
proof -
  have h: "\<forall>v. Some ''2024-01-01T00:00:00'' = Some v \<and> v \<noteq> [] \<longrightarrow>
             (\<forall>r\<in>set (dag_runs store_no_runs). dr_dag_id r = dag_id dag0 \<longrightarrow>
                dr_run_id r \<noteq> Some v \<and> (parse amb1 v = None \<or> dr_logical_date r \<noteq> parse amb1 v))"
    by (simp add: store_no_runs_def)
  have a: "run_id_allowed amb1 ''2024-01-01T00:00:00''"
    using new_year_allowed by (simp add: amb1_def)
  from get_dag_run_memory[OF h] a
  obtain r where r: "get_dag_run amb1 dag0 Memory (Some ''2024-01-01T00:00:00'') store_no_runs
                       = (Inr (r, True), store_no_runs)"
    by blast
  moreover have "fst (get_dag_run amb1 dag0 Memory (Some ''2024-01-01T00:00:00'') store_no_runs) =
     Inr (\<lparr>dr_dag_id = ''W'', dr_run_id = Some ''2024-01-01T00:00:00'', dr_run_type = MANUAL,
            dr_logical_date = Some dt_a,
            dr_data_interval = Some \<lparr>di_start = dt_a, di_end = dt_a\<rparr>, dr_run_after = dt_a,
            dr_triggered_by = CLI, dr_triggering_user_name = Some ''airflow'',
            dr_state = RUNNING, dr_start_date = Some dt_b\<rparr>, True)"
    using new_year_allowed
    by (simp add: get_dag_run_def fetch_dag_run_from_run_id_or_logical_date_string_def
          new_DagRun_def validate_run_id_def interval0_def
          store_no_runs_def amb1_def parse_new_year_def dag0_def)
  ultimately show ?thesis by simp
qed

text \<open>
  Claim C4 as stated fails: without an identifier, the run built in memory has no
  run identifier; none is generated.
\<close>

theorem get_dag_run_memory_no_identifier_counterexample:
  "get_dag_run amb0 dag0 Memory None store0 =
     (Inr (\<lparr>dr_dag_id = ''W'', dr_run_id = None, dr_run_type = MANUAL,
            dr_logical_date = None, dr_data_interval = None, dr_run_after = dt_a,
            dr_triggered_by = CLI, dr_triggering_user_name = Some ''airflow'',
            dr_state = RUNNING, dr_start_date = Some dt_b\<rparr>, True), store0)"
  by (simp add: get_dag_run_def new_DagRun_def validate_run_id_def amb0_def dag0_def)

lemma task_test_setup_environ:
  assumes "arg_env_vars args = None \<or> arg_env_vars args = Some []"
  shows "environ (snd (task_test_setup args proc)) = environ proc"
  using assms unfolding task_test_setup_def by (auto simp: Let_def)

lemma task_test_finally_environ:
  "environ (fst (task_test_finally a ti c (proc, session))) = environ proc"
  by (simp add: task_test_finally_def)

lemma task_test_environ:
  "environ (fst (snd (task_test amb args dag (proc, session))))
     = environ (snd (task_test_setup args proc))"
proof -
  obtain a p1 where s: "task_test_setup args proc = (a, p1)"
    by (cases "task_test_setup args proc")
  show ?thesis
  proof (cases "task_test_load amb args dag")
    case (Inl e)
    with s show ?thesis by (simp add: task_test_def)
  next
    case (Inr task)
    obtain res s1 where g: "get_ti amb task (arg_map_index args)
                     (arg_logical_date_or_run_id args) None Db session = (res, s1)"
      by (cases "get_ti amb task (arg_map_index args) (arg_logical_date_or_run_id args) None Db session")
    show ?thesis
    proof (cases res)
      case (Inl e)
      with s Inr g show ?thesis by (simp add: task_test_def)
    next
      case r: (Inr tc)
      obtain ti c where tc: "tc = (ti, c)" by (cases tc)
      obtain outcome s2 where b: "task_test_body amb args ti s1 = (outcome, s2)"
        by (cases "task_test_body amb args ti s1")
      obtain p3 s3 where f: "task_test_finally a ti c (p1, s2) = (p3, s3)"
        by (cases "task_test_finally a ti c (p1, s2)")
      from task_test_finally_environ[of a ti c p1 s2] f have "environ p3 = environ p1" by simp
      with s Inr g r tc b f show ?thesis by (simp add: task_test_def)
    qed
  qed
qed

lemma task_test_environ_without_env_vars:
  assumes "arg_env_vars args = None \<or> arg_env_vars args = Some []"
  shows "environ (fst (snd (task_test amb args dag (proc, session)))) = environ proc"
  using task_test_environ task_test_setup_environ[OF assms] by simp

lemma task_test_args0_result:
  "fst (task_test amb0 args0 (Some dag0) (proc0, store0)) = Inr ()"
  by (simp add: task_test_def task_test_setup_def task_test_load_def get_task_def get_ti_def task_dag_def
      get_dag_run_def get_or_create_dagrun_def get_task_instance_def get_latest_version_def
      task_test_body_def task_test_finally_def Let_def
      args0_def dag0_def t1_def proc0_def amb0_def body_ok_def same_dag_def store0_def run0_def
      generate_temporary_run_id_def split: prod.splits)

text \<open>
  Claim C5. \<^verbatim>\<open>task_test\<close> builds the dictionary with the
  \<^verbatim>\<open>AIRFLOW_TEST_MODE\<close> marker on every call, but writes it to the environment only
  under the test for supplied overrides: called without overrides, it leaves the
  environment without the marker.
\<close>

theorem task_test_no_env_vars_no_marker:
  "arg_env_vars args0 = None \<and>
   map_of (environ proc0) ''AIRFLOW_TEST_MODE'' = None \<and>
   fst (task_test amb0 args0 (Some dag0) (proc0, store0)) = Inr () \<and>
   map_of (environ (fst (snd (task_test amb0 args0 (Some dag0) (proc0, store0)))))
     ''AIRFLOW_TEST_MODE'' = None"
proof -
  have a: "arg_env_vars args0 = None" by (simp add: args0_def)
  have e: "environ proc0 = []" by (simp add: proc0_def)
  from a e task_test_args0_result
    task_test_environ_without_env_vars[of args0 amb0 "Some dag0" proc0 store0]
  show ?thesis by simp
qed



lemma session_flush_fields [simp]:
  "dag_runs (session_flush s t) = dag_runs s" "dag_versions (session_flush s t) = dag_versions s"
  by (simp_all add: session_flush_def)

lemma session_add_fields [simp]:
  "dag_runs (session_add s t) = dag_runs s" "dag_versions (session_add s t) = dag_versions s"
  by (simp_all add: session_add_def)

lemma refresh_from_task_dag_run [simp]:
  "ti_dag_run (refresh_from_task t task p) = ti_dag_run t"
  by (simp add: refresh_from_task_def)



lemma get_task_Inr:
  "get_task d tid = Inr task \<Longrightarrow> op_dag task = Some d \<and> tid \<in> set (map fst (task_dict d))"
  unfolding get_task_def by (auto split: option.splits dest: map_of_SomeD intro: rev_image_eqI)

lemma get_ti_Inr_checks:
  assumes "fst (get_ti amb task map_index ident pool_override c session) = Inr x"
  shows "\<exists>d. op_dag task = Some d \<and> task_id (op_task task) \<in> set (map fst (task_dict d)) \<and>
             (truthy ident \<or> c \<noteq> No_create) \<and>
             \<not> (needs_expansion (op_task task) \<and> map_index < 0) \<and>
             \<not> (\<not> needs_expansion (op_task task) \<and> map_index \<ge> 0)"
proof (cases "op_dag task")
  case None
  with assms show ?thesis
    unfolding get_ti_def task_dag_def by (auto split: if_splits)
next
  case (Some d)
  with assms show ?thesis
    unfolding get_ti_def by (auto split: if_splits)
qed






lemma fetch_cong:
  assumes "parse amb' = parse amb" "dag_runs s' = dag_runs s"
  shows "fetch_dag_run_from_run_id_or_logical_date_string amb' did v s'
           = fetch_dag_run_from_run_id_or_logical_date_string amb did v s"
  unfolding fetch_dag_run_from_run_id_or_logical_date_string_def assms ..

lemma refresh_from_task_idem:
  "refresh_from_task (refresh_from_task t task p) task p = refresh_from_task t task p"
  by (simp add: refresh_from_task_def)

lemma refresh_from_task_key [simp]:
  "ti_key r tid mi (refresh_from_task t task p) = ti_key r tid mi t"
  by (simp add: refresh_from_task_def ti_key_def)

lemma ti_key_dag_run_update [simp]:
  "ti_key r tid mi (t\<lparr>ti_dag_run := x\<rparr>) = ti_key r tid mi t"
  by (simp add: ti_key_def)

lemma find_replace:
  assumes "K t" "\<exists>x\<in>set xs. K x"
  shows "find K (map (\<lambda>x. if K x then t else x) xs) = Some t"
  using assms by (induction xs) auto

lemma map_replace_idem:
  assumes "K t"
  shows "map (\<lambda>x. if K x then t else x) (map (\<lambda>x. if K x then t else x) xs)
           = map (\<lambda>x. if K x then t else x) xs"
  using assms by (induction xs) auto

lemma length_filter_replace:
  assumes "K t"
  shows "length (filter K (map (\<lambda>x. if K x then t else x) xs)) = length (filter K xs)"
  using assms by (induction xs) auto

lemma same_ti_key:
  assumes "ti_key r tid mi t"
  shows "same_ti x t = ti_key r tid mi x"
  using assms by (auto simp: same_ti_def ti_key_def)

lemma session_flush_key:
  assumes "ti_key r tid mi t"
  shows "task_instances (session_flush s t)
           = map (\<lambda>x. if ti_key r tid mi x then t else x) (task_instances s)"
  by (simp add: session_flush_def same_ti_key[OF assms])

lemma session_flush_again:
  assumes "ti_key r tid mi t"
  shows "session_flush (session_flush s t) t = session_flush s t"
  unfolding session_flush_def same_ti_key[OF assms]
  by (simp add: map_replace_idem[of "ti_key r tid mi", OF assms, unfolded comp_def] o_def)


lemma get_ti_on_stored_run:
  assumes d: "op_dag task = Some dag" "task_id (op_task task) \<in> set (map fst (task_dict dag))"
    and n: "\<not> (needs_expansion (op_task task) \<and> map_index < 0)"
           "\<not> (\<not> needs_expansion (op_task task) \<and> map_index \<ge> 0)"
    and v: "v \<noteq> []" and c: "c \<noteq> No_create"
    and f: "fst (fetch_dag_run_from_run_id_or_logical_date_string amb (dag_id dag) v session) = Some r"
  shows "get_ti amb task map_index (Some v) pool_override c session =
           (case get_task_instance r (task_id (op_task task)) map_index session of
              None \<Rightarrow>
                (case get_latest_version (dag_id dag) session of
                   None \<Rightarrow> (Inl (ValueError (Dag_not_serialized (dag_id dag))), session)
                 | Some dv \<Rightarrow>
                     (Inr (refresh_from_task
                             ((new_TaskInstance (op_task task) (dag_id dag) (dr_run_id r) map_index dv)
                                \<lparr>ti_dag_run := Some r\<rparr>) (op_task task) pool_override, False),
                      session_flush
                        (session_add session
                           (new_TaskInstance (op_task task) (dag_id dag) (dr_run_id r) map_index dv))
                        (refresh_from_task
                           ((new_TaskInstance (op_task task) (dag_id dag) (dr_run_id r) map_index dv)
                              \<lparr>ti_dag_run := Some r\<rparr>) (op_task task) pool_override)))
            | Some t \<Rightarrow>
                (Inr (refresh_from_task t (op_task task) pool_override, False),
                 session_flush session (refresh_from_task t (op_task task) pool_override)))"
proof -
  have k: "truthy (Some v) \<or> c \<noteq> No_create" using v by simp
  have g: "get_dag_run amb dag c (Some v) session = (Inr (r, False), session)"
    by (rule get_dag_run_found[OF v f])
  have i: "in_session r session"
    using fetch_Some[OF f] by (simp add: in_session_def)
  show ?thesis
    unfolding get_ti_after_checks[OF d k n] g using c i
    by (simp add: Let_def refresh_from_task_idem split: option.splits)
qed


lemma get_task_instance_find:
  assumes "dr_run_id r \<noteq> None"
  shows "get_task_instance r tid mi s
           = map_option (\<lambda>t. t\<lparr>ti_dag_run := Some r\<rparr>) (find (ti_key r tid mi) (task_instances s))"
  using assms unfolding get_task_instance_def by (auto split: option.splits)

lemma get_ti_second_call:
  assumes d: "op_dag task = Some dag" "task_id (op_task task) \<in> set (map fst (task_dict dag))"
    and n: "\<not> (needs_expansion (op_task task) \<and> map_index < 0)"
           "\<not> (\<not> needs_expansion (op_task task) \<and> map_index \<ge> 0)"
    and v: "v \<noteq> []" and c: "c \<noteq> No_create"
    and f: "fst (fetch_dag_run_from_run_id_or_logical_date_string amb' (dag_id dag) v session1) = Some r"
    and rid: "dr_run_id r \<noteq> None"
    and K: "ti_key r (task_id (op_task task)) map_index ti"
    and dr: "ti_dag_run ti = Some r"
    and rf: "refresh_from_task ti (op_task task) pool_override = ti"
    and L: "task_instances session1
              = map (\<lambda>x. if ti_key r (task_id (op_task task)) map_index x then ti else x) xs"
    and ex: "\<exists>x\<in>set xs. ti_key r (task_id (op_task task)) map_index x"
  shows "get_task_instance r (task_id (op_task task)) map_index session1 = Some ti \<and>
         get_ti amb' task map_index (Some v) pool_override c session1 = (Inr (ti, False), session1)"
proof -
  have "find (ti_key r (task_id (op_task task)) map_index) (task_instances session1) = Some ti"
    unfolding L
    by (rule find_replace[of "ti_key r (task_id (op_task task)) map_index" ti, OF K ex])
  then have g: "get_task_instance r (task_id (op_task task)) map_index session1 = Some ti"
    using dr by (simp add: get_task_instance_find[OF rid])
  have "map (\<lambda>x. if same_ti x ti then ti else x) (task_instances session1) = task_instances session1"
    unfolding L same_ti_key[OF K]
    by (rule map_replace_idem[of "ti_key r (task_id (op_task task)) map_index" ti, OF K])
  then have fl: "session_flush session1 ti = session1"
    by (simp add: session_flush_def)
  from get_ti_on_stored_run[OF d n v c f, of pool_override] g rf fl
  have "get_ti amb' task map_index (Some v) pool_override c session1 = (Inr (ti, False), session1)"
    by simp
  with g show ?thesis by simp
qed


text \<open>
  Claim C7, amended. When the identifier resolves to a stored run and creation is
  on, a call of \<^verbatim>\<open>_get_ti\<close> that succeeds leaves the instance in the store, and a
  second call with the same task and map index returns that same instance, with the
  store unchanged; a store that held at most one instance of the (run, task, map index)
  holds exactly one afterwards.
\<close>

theorem get_ti_twice:
  assumes d: "op_dag task = Some dag"
    and v: "v \<noteq> []" and c: "c \<noteq> No_create"
    and f: "fst (fetch_dag_run_from_run_id_or_logical_date_string amb (dag_id dag) v session) = Some r"
    and rid: "dr_run_id r \<noteq> None"
    and p: "parse amb' = parse amb"
    and first: "get_ti amb task map_index (Some v) pool_override c session
                  = (Inr (ti, created), session1)"
  shows "created = False \<and> ti_dag_run ti = Some r \<and> r \<in> set (dag_runs session1) \<and>
         get_task_instance r (task_id (op_task task)) map_index session1 = Some ti \<and>
         get_ti amb' task map_index (Some v) pool_override c session1 = (Inr (ti, False), session1) \<and>
         (length (filter (ti_key r (task_id (op_task task)) map_index) (task_instances session)) \<le> 1
            \<longrightarrow>
          length (filter (ti_key r (task_id (op_task task)) map_index) (task_instances session1)) = 1)"
proof -
  let ?tid = "task_id (op_task task)"
  let ?K = "ti_key r ?tid map_index"
  let ?L = "task_instances session"
  from first have "fst (get_ti amb task map_index (Some v) pool_override c session) = Inr (ti, created)"
    by simp
  from get_ti_Inr_checks[OF this] d have t: "?tid \<in> set (map fst (task_dict dag))"
    and n: "\<not> (needs_expansion (op_task task) \<and> map_index < 0)"
           "\<not> (\<not> needs_expansion (op_task task) \<and> map_index \<ge> 0)"
    by auto
  note u = get_ti_on_stored_run[OF d t n v c f, of pool_override]
  note m = fetch_Some[OF f]
  have fnd: "get_task_instance r ?tid map_index session
               = map_option (\<lambda>t. t\<lparr>ti_dag_run := Some r\<rparr>) (find ?K ?L)"
    by (rule get_task_instance_find[OF rid])
  have main: "created = False \<and> ti_dag_run ti = Some r \<and> ?K ti \<and>
              refresh_from_task ti (op_task task) pool_override = ti \<and>
              dag_runs session1 = dag_runs session \<and>
              (\<exists>xs. task_instances session1 = map (\<lambda>x. if ?K x then ti else x) xs \<and>
                    (\<exists>x\<in>set xs. ?K x) \<and>
                    (length (filter ?K ?L) \<le> 1 \<longrightarrow> length (filter ?K xs) = 1))"
  proof (cases "find ?K ?L")
    case None
    then have g: "get_task_instance r ?tid map_index session = None"
      using fnd by simp
    from first u g obtain dv where dv: "get_latest_version (dag_id dag) session = Some dv"
      by (cases "get_latest_version (dag_id dag) session") auto
    let ?t0 = "new_TaskInstance (op_task task) (dag_id dag) (dr_run_id r) map_index dv"
    from first u g dv have ti: "ti = refresh_from_task (?t0\<lparr>ti_dag_run := Some r\<rparr>) (op_task task) pool_override"
      and cr: "created = False"
      and s1: "session1 = session_flush (session_add session ?t0) ti"
      by auto
    have k0: "?K ?t0"
      using m by (simp add: ti_key_def new_TaskInstance_def)
    have k: "?K ti"
      using k0 unfolding ti by simp
    have dr: "ti_dag_run ti = Some r" unfolding ti by simp
    have rf: "refresh_from_task ti (op_task task) pool_override = ti"
      unfolding ti by (rule refresh_from_task_idem)
    have l: "task_instances session1 = map (\<lambda>x. if ?K x then ti else x) (?L @ [?t0])"
      unfolding s1 session_flush_key[OF k] by (simp add: session_add_def)
    from None have "filter ?K ?L = []"
      by (simp add: find_None_iff filter_empty_conv)
    with k0 have cnt: "length (filter ?K (?L @ [?t0])) = 1" by simp
    have ex: "\<exists>x\<in>set (?L @ [?t0]). ?K x" using k0 by simp
    have rs: "dag_runs session1 = dag_runs session" unfolding s1 by simp
    from cr dr k rf rs l ex cnt show ?thesis by blast
  next
    case (Some t0)
    then have k0: "?K t0" and in0: "t0 \<in> set ?L"
      by (auto simp: find_Some_iff)
    from Some have g: "get_task_instance r ?tid map_index session = Some (t0\<lparr>ti_dag_run := Some r\<rparr>)"
      using fnd by simp
    from first u g have ti: "ti = refresh_from_task (t0\<lparr>ti_dag_run := Some r\<rparr>) (op_task task) pool_override"
      and cr: "created = False"
      and s1: "session1 = session_flush session ti"
      by auto
    have k: "?K ti"
      using k0 unfolding ti by simp
    have dr: "ti_dag_run ti = Some r" unfolding ti by simp
    have rf: "refresh_from_task ti (op_task task) pool_override = ti"
      unfolding ti by (rule refresh_from_task_idem)
    have l: "task_instances session1 = map (\<lambda>x. if ?K x then ti else x) ?L"
      unfolding s1 by (rule session_flush_key[OF k])
    have ex: "\<exists>x\<in>set ?L. ?K x" using k0 in0 by blast
    then have "filter ?K ?L \<noteq> []" by (simp add: filter_empty_conv)
    then have "1 \<le> length (filter ?K ?L)" by (cases "filter ?K ?L") simp_all
    then have cnt: "length (filter ?K ?L) \<le> 1 \<longrightarrow> length (filter ?K ?L) = 1" by simp
    have rs: "dag_runs session1 = dag_runs session" unfolding s1 by simp
    from cr dr k rf rs l ex cnt show ?thesis by blast
  qed
  then obtain xs where cr: "created = False" and dr: "ti_dag_run ti = Some r" and k: "?K ti"
    and rf: "refresh_from_task ti (op_task task) pool_override = ti"
    and rs: "dag_runs session1 = dag_runs session"
    and l: "task_instances session1 = map (\<lambda>x. if ?K x then ti else x) xs"
    and ex: "\<exists>x\<in>set xs. ?K x"
    and cnt: "length (filter ?K ?L) \<le> 1 \<longrightarrow> length (filter ?K xs) = 1"
    by blast
  have f': "fst (fetch_dag_run_from_run_id_or_logical_date_string amb' (dag_id dag) v session1) = Some r"
    using f fetch_cong[OF p rs] by simp
  note sc = get_ti_second_call[OF d t n v c f' rid k dr rf l ex]
  have "length (filter ?K (task_instances session1)) = length (filter ?K xs)"
    unfolding l by (rule length_filter_replace[of ?K ti, OF k])
  with cnt have "length (filter ?K ?L) \<le> 1 \<longrightarrow> length (filter ?K (task_instances session1)) = 1"
    by simp
  moreover have "r \<in> set (dag_runs session1)" using m rs by simp
  ultimately show ?thesis using cr dr sc by simp
qed


lemma get_ti_first_call_stored:
  "get_ti amb0 op_t1 (-1) (Some ''manual_1'') None Db store0 = (Inr (ti_stored, False), store_bound)"
  by (simp add: get_ti_def task_dag_def get_dag_run_def
      fetch_dag_run_from_run_id_or_logical_date_string_def get_task_instance_def
      get_latest_version_def new_TaskInstance_def refresh_from_task_def in_session_def
      session_add_def session_flush_def same_ti_def Let_def
      op_t1_def dag0_def t1_def store0_def run0_def ti_stored_def store_bound_def)

theorem get_ti_twice_witness:
  "get_ti amb0 op_t1 (-1) (Some ''manual_1'') None Db store0 = (Inr (ti_stored, False), store_bound) \<and>
   get_ti amb_later op_t1 (-1) (Some ''manual_1'') None Db store_bound
     = (Inr (ti_stored, False), store_bound) \<and>
   get_task_instance run0 ''t1'' (-1) store_bound = Some ti_stored \<and>
   length (filter (ti_key run0 ''t1'' (-1)) (task_instances store_bound)) = 1"
proof -
  have d: "op_dag op_t1 = Some dag0" by (simp add: op_t1_def)
  have v: "''manual_1'' \<noteq> []" by simp
  have c: "Db \<noteq> No_create" by simp
  have f: "fst (fetch_dag_run_from_run_id_or_logical_date_string amb0 (dag_id dag0) ''manual_1'' store0)
             = Some run0"
    by (simp add: fetch_dag_run_from_run_id_or_logical_date_string_def dag0_def store0_def run0_def)
  have rid: "dr_run_id run0 \<noteq> None" by (simp add: run0_def)
  have p: "parse amb_later = parse amb0" by (simp add: amb_later_def)
  have t: "task_id (op_task op_t1) = ''t1''" by (simp add: op_t1_def t1_def)
  have l: "length (filter (ti_key run0 ''t1'' (-1)) (task_instances store0)) \<le> 1"
    by (simp add: store0_def)
  from get_ti_twice[OF d v c f rid p get_ti_first_call_stored] t l get_ti_first_call_stored
  show ?thesis by simp
qed

text \<open>
  Claim C7 as stated fails for a run built in memory: the session does not track
  the run, the new instance is not added to the store, and a second call finds no
  instance of the (run, task, map index) there.
\<close>

theorem get_ti_memory_run_counterexample:
  "get_ti amb1 op_t1 (-1) (Some ''2024-01-01T00:00:00'') None Memory store_no_runs
     = (Inr (ti_memory, True), store_no_runs) \<and>
   get_task_instance run_memory ''t1'' (-1) store_no_runs = None"
  using new_year_allowed
  by (simp add: get_ti_def task_dag_def get_dag_run_def
      fetch_dag_run_from_run_id_or_logical_date_string_def get_task_instance_def
      get_latest_version_def new_TaskInstance_def refresh_from_task_def in_session_def
      session_flush_def new_DagRun_def validate_run_id_def interval0_def Let_def
      op_t1_def dag0_def t1_def store_no_runs_def amb1_def parse_new_year_def
      ti_memory_def run_memory_def)

end
